theory Spec2Isabelle
  imports Complex_Main
begin

section \<open>JavaScript values\<close>

text \<open>
  The event-log code is JavaScript: its arguments are untyped, and the guards of the
  writer and of the service rest on the conversions \<^verbatim>\<open>Number\<close>, \<^verbatim>\<open>parseInt\<close>,
  truthiness and \<^verbatim>\<open>===\<close>. The values the code handles are modelled by \<open>jsval\<close>.
  A string is its (well-formed) UTF-8 byte sequence. A number is \<open>NaN\<close>, an infinity
  or a finite value, kept as the rational it denotes. \<open>JObj\<close> is a reference to an
  object; arrays, functions and symbols do not occur.
\<close>

datatype extnum = Finite rat | PosInf | NegInf

datatype jsnum = NaN | Num extnum

abbreviation Fin :: "rat \<Rightarrow> jsnum" where
  "Fin r \<equiv> Num (Finite r)"

abbreviation PInf :: jsnum where
  "PInf \<equiv> Num PosInf"

abbreviation NInf :: jsnum where
  "NInf \<equiv> Num NegInf"

datatype jsval =
    JUndefined
  | JNull
  | JBool bool
  | JNum jsnum
  | JStr string
  | JObj nat

text \<open>
  A plain object, given by what reading each property yields; a property that is absent
  yields \<open>JUndefined\<close>. Payloads, users and cached records are such objects.
\<close>

type_synonym obj = "string \<Rightarrow> jsval"

definition empty_obj :: obj where
  "empty_obj = (\<lambda>k. JUndefined)"

text \<open>\<^verbatim>\<open>ToBoolean\<close>, the operator \<^verbatim>\<open>||\<close> and strict equality \<^verbatim>\<open>===\<close>.\<close>

fun truthy :: "jsval \<Rightarrow> bool" where
  "truthy JUndefined = False"
| "truthy JNull = False"
| "truthy (JBool b) = b"
| "truthy (JNum n) = (n \<noteq> NaN \<and> n \<noteq> Fin 0)"
| "truthy (JStr s) = (s \<noteq> [])"
| "truthy (JObj a) = True"

definition js_or :: "jsval \<Rightarrow> jsval \<Rightarrow> jsval" where
  "js_or a b = (if truthy a then a else b)"

definition strict_eq :: "jsval \<Rightarrow> jsval \<Rightarrow> bool" where
  "strict_eq a b = (a = b \<and> a \<noteq> JNum NaN)"

subsection \<open>Doubles\<close>

text \<open>
  The numbers of JavaScript are doubles. Every integer of magnitude at most \<open>2^53\<close> is
  a double, is the result of converting a numeral that denotes it, and prints as its
  decimal digits; on these "safe" integers the conversions below are computed. Wherever a
  result depends on rounding to the nearest double, or on how a double that is not a safe
  integer prints, the model asks the runtime instead: the fields of \<open>runtime\<close> are
  what the engine answers there, and every statement below holds whatever they are. The
  answers are typed so as to keep what is certain: converting digits never gives
  \<^verbatim>\<open>NaN\<close>.
\<close>

record runtime =
  parseInt_inexact :: "string \<Rightarrow> extnum"    \<comment> \<open>\<^verbatim>\<open>parseInt\<close> of digits that denote more than \<open>2^53\<close>\<close>
  parseInt_printed :: "rat \<Rightarrow> int"          \<comment> \<open>\<^verbatim>\<open>parseInt\<close> of a number below \<open>10^-6\<close> or above \<open>2^53\<close> in magnitude\<close>
  round_MV :: "rat \<Rightarrow> extnum"                \<comment> \<open>the double for a mathematical value that is not a safe integer\<close>
  add_one_inexact :: "rat \<Rightarrow> rat"            \<comment> \<open>\<^verbatim>\<open>x + 1\<close> for an \<open>x\<close> that is not a safe integer below \<open>2^53\<close>\<close>
  toString_inexact :: "rat \<Rightarrow> string"        \<comment> \<open>\<^verbatim>\<open>String(x)\<close> for an \<open>x\<close> that is not a safe integer\<close>

definition safe_integer :: "rat \<Rightarrow> bool" where
  "safe_integer r = (of_int \<lfloor>r\<rfloor> = r \<and> \<bar>r\<bar> \<le> 2 ^ 53)"

subsection \<open>Numeric strings\<close>

text \<open>
  \<^verbatim>\<open>StrWhiteSpaceChar\<close>: the white space and line terminators of ECMAScript, each
  as its UTF-8 bytes: TAB, LF, VT, FF, CR, SP, U+00A0, U+1680, U+2000 to U+200A, U+2028,
  U+2029, U+202F, U+205F, U+3000 and U+FEFF.
\<close>

definition ws_seqs :: "string list" where
  "ws_seqs =
     [[CHR 0x09], [CHR 0x0A], [CHR 0x0B], [CHR 0x0C], [CHR 0x0D], [CHR 0x20],
      [CHR 0xC2, CHR 0xA0],
      [CHR 0xE1, CHR 0x9A, CHR 0x80],
      [CHR 0xE2, CHR 0x80, CHR 0x80], [CHR 0xE2, CHR 0x80, CHR 0x81],
      [CHR 0xE2, CHR 0x80, CHR 0x82], [CHR 0xE2, CHR 0x80, CHR 0x83],
      [CHR 0xE2, CHR 0x80, CHR 0x84], [CHR 0xE2, CHR 0x80, CHR 0x85],
      [CHR 0xE2, CHR 0x80, CHR 0x86], [CHR 0xE2, CHR 0x80, CHR 0x87],
      [CHR 0xE2, CHR 0x80, CHR 0x88], [CHR 0xE2, CHR 0x80, CHR 0x89],
      [CHR 0xE2, CHR 0x80, CHR 0x8A],
      [CHR 0xE2, CHR 0x80, CHR 0xA8], [CHR 0xE2, CHR 0x80, CHR 0xA9],
      [CHR 0xE2, CHR 0x80, CHR 0xAF],
      [CHR 0xE2, CHR 0x81, CHR 0x9F],
      [CHR 0xE3, CHR 0x80, CHR 0x80],
      [CHR 0xEF, CHR 0xBB, CHR 0xBF]]"

text \<open>
  Dropping, from the front of a string, every leading occurrence of one of the given byte
  sequences. Trimming the end is the same on the reversed string: the first byte of each
  sequence is a lead byte of UTF-8, so a match at the end is a whole character.
\<close>

function skip_seqs :: "string list \<Rightarrow> string \<Rightarrow> string" where
  "skip_seqs seqs s =
     (case find (\<lambda>p. p \<noteq> [] \<and> take (length p) s = p) seqs of
        None \<Rightarrow> s
      | Some p \<Rightarrow> skip_seqs seqs (drop (length p) s))"
  by pat_completeness auto
termination
proof (relation "measure (\<lambda>(seqs, s). length s)")
  show "wf (measure (\<lambda>(seqs, s). length s))"
    by simp
next
  fix seqs :: "string list" and s p :: string
  assume "find (\<lambda>p. p \<noteq> [] \<and> take (length p) s = p) seqs = Some p"
  then have "p \<noteq> []" and "take (length p) s = p"
    by (auto simp: find_Some_iff)
  then have "s \<noteq> []" and "0 < length p"
    by auto
  then show "((seqs, drop (length p) s), (seqs, s)) \<in> measure (\<lambda>(seqs, s). length s)"
    by simp
qed

declare skip_seqs.simps [simp del]

definition skip_ws :: "string \<Rightarrow> string" where
  "skip_ws s = skip_seqs ws_seqs s"

definition trim :: "string \<Rightarrow> string" where
  "trim s = rev (skip_seqs (map rev ws_seqs) (rev (skip_ws s)))"

definition digit_of :: "char \<Rightarrow> nat option" where
  "digit_of c =
     (let n = (of_char c :: nat) in
      if 48 \<le> n \<and> n \<le> 57 then Some (n - 48)
      else if 97 \<le> n \<and> n \<le> 102 then Some (n - 87)
      else if 65 \<le> n \<and> n \<le> 70 then Some (n - 55)
      else None)"

definition is_digit :: "nat \<Rightarrow> char \<Rightarrow> bool" where
  "is_digit radix c = (case digit_of c of None \<Rightarrow> False | Some d \<Rightarrow> d < radix)"

definition digits_value :: "nat \<Rightarrow> string \<Rightarrow> nat" where
  "digits_value radix ds = foldl (\<lambda>a c. a * radix + the (digit_of c)) 0 ds"

definition strip_sign :: "string \<Rightarrow> bool \<times> string" where
  "strip_sign s =
     (case s of
        c # r \<Rightarrow> if c = CHR ''-'' then (True, r) else if c = CHR ''+'' then (False, r) else (False, s)
      | [] \<Rightarrow> (False, s))"

text \<open>
  The integer that \<^verbatim>\<open>parseInt(string)\<close> reads, before it becomes a double
  (\<open>mathInt\<close> in ECMAScript): skip leading white space, take a sign, take the prefix
  \<^verbatim>\<open>0x\<close> as radix 16, read the longest run of digits; \<open>None\<close> when there is no
  digit, which is the case that gives \<^verbatim>\<open>NaN\<close>.
\<close>

definition parseInt_mathInt :: "string \<Rightarrow> int option" where
  "parseInt_mathInt s =
     (let (neg, s2) = strip_sign (skip_ws s);
          hex = (take 2 s2 = ''0x'' \<or> take 2 s2 = ''0X'');
          radix = (if hex then 16 else 10);
          ds = takeWhile (is_digit radix) (if hex then drop 2 s2 else s2)
      in if ds = [] then None
         else Some (if neg then - int (digits_value radix ds) else int (digits_value radix ds)))"

text \<open>
  \<^verbatim>\<open>parseInt(v)\<close> converts \<open>v\<close> to a string first. A finite number prints with a
  digit first (after its sign), so the result is an integer: the number truncated towards
  zero when its magnitude is from \<open>10^-6\<close> (below, it prints with an exponent) up to
  \<open>2^53\<close> (above, its printed digits need not denote it), and what the runtime reads
  from the printed form otherwise. \<^verbatim>\<open>NaN\<close>, the infinities, \<^verbatim>\<open>undefined\<close>,
  \<^verbatim>\<open>null\<close>, booleans and plain objects print as words and give \<^verbatim>\<open>NaN\<close>.
\<close>

fun js_parseInt :: "runtime \<Rightarrow> jsval \<Rightarrow> jsnum" where
  "js_parseInt rt (JStr s) =
     (case parseInt_mathInt s of
        None \<Rightarrow> NaN
      | Some n \<Rightarrow> if \<bar>n\<bar> \<le> 2 ^ 53 then Fin (of_int n) else Num (parseInt_inexact rt s))"
| "js_parseInt rt (JNum (Num (Finite r))) =
     (if r = 0 \<or> (1 / 10 ^ 6 \<le> \<bar>r\<bar> \<and> \<bar>r\<bar> \<le> 2 ^ 53)
      then Fin (of_int (if 0 \<le> r then \<lfloor>r\<rfloor> else \<lceil>r\<rceil>))
      else Fin (of_int (parseInt_printed rt r)))"
| "js_parseInt rt v = NaN"

text \<open>
  The mathematical value of a string as a numeric literal (\<^verbatim>\<open>StringToNumber\<close> before
  rounding): the whole trimmed string must be a literal. The empty string is 0; a literal
  is \<^verbatim>\<open>Infinity\<close> or a decimal (digits, optional fraction, optional exponent) with
  an optional sign, or an unsigned \<^verbatim>\<open>0x\<close>, \<^verbatim>\<open>0o\<close>, \<^verbatim>\<open>0b\<close> integer;
  anything else is not numeric.
\<close>

datatype mv = NotNumeric | Infinite bool | Value rat

definition all_digits :: "nat \<Rightarrow> string \<Rightarrow> bool" where
  "all_digits radix s = (s \<noteq> [] \<and> list_all (is_digit radix) s)"

definition parse_exponent :: "string \<Rightarrow> int option" where
  "parse_exponent s =
     (case s of
        [] \<Rightarrow> Some 0
      | c # r \<Rightarrow>
          if c = CHR ''e'' \<or> c = CHR ''E'' then
            (let (neg, ds) = strip_sign r in
             if all_digits 10 ds
             then Some (if neg then - int (digits_value 10 ds) else int (digits_value 10 ds))
             else None)
          else None)"

definition parse_decimal :: "string \<Rightarrow> rat option" where
  "parse_decimal s =
     (let ip = takeWhile (is_digit 10) s;
          r1 = dropWhile (is_digit 10) s;
          dot = (r1 \<noteq> [] \<and> hd r1 = CHR ''.'');
          fp = (if dot then takeWhile (is_digit 10) (tl r1) else []);
          r2 = (if dot then dropWhile (is_digit 10) (tl r1) else r1)
      in if ip = [] \<and> fp = [] then None
         else case parse_exponent r2 of
                None \<Rightarrow> None
              | Some e \<Rightarrow>
                  (let m = (of_nat (digits_value 10 (ip @ fp)) :: rat);
                       k = e - int (length fp)
                   in Some (if 0 \<le> k then m * 10 ^ nat k else m / 10 ^ nat (- k))))"

definition string_MV :: "string \<Rightarrow> mv" where
  "string_MV s0 =
     (let s = trim s0 in
      if s = [] then Value 0
      else if take 2 s \<in> set [''0x'', ''0X''] then
        (if all_digits 16 (drop 2 s) then Value (of_nat (digits_value 16 (drop 2 s))) else NotNumeric)
      else if take 2 s \<in> set [''0o'', ''0O''] then
        (if all_digits 8 (drop 2 s) then Value (of_nat (digits_value 8 (drop 2 s))) else NotNumeric)
      else if take 2 s \<in> set [''0b'', ''0B''] then
        (if all_digits 2 (drop 2 s) then Value (of_nat (digits_value 2 (drop 2 s))) else NotNumeric)
      else
        (let (neg, u) = strip_sign s in
         if u = ''Infinity'' then Infinite neg
         else case parse_decimal u of
                None \<Rightarrow> NotNumeric
              | Some r \<Rightarrow> Value (if neg then - r else r)))"

text \<open>
  \<^verbatim>\<open>Number(v)\<close>. A string converts to the double nearest to its mathematical value:
  the value itself when it is a safe integer, the runtime's rounding otherwise. A plain
  object converts through \<^verbatim>\<open>"[object Object]"\<close> to \<^verbatim>\<open>NaN\<close>.
\<close>

fun js_Number :: "runtime \<Rightarrow> jsval \<Rightarrow> jsnum" where
  "js_Number rt JUndefined = NaN"
| "js_Number rt JNull = Fin 0"
| "js_Number rt (JBool b) = Fin (if b then 1 else 0)"
| "js_Number rt (JNum n) = n"
| "js_Number rt (JStr s) =
     (case string_MV s of
        NotNumeric \<Rightarrow> NaN
      | Infinite neg \<Rightarrow> (if neg then NInf else PInf)
      | Value r \<Rightarrow> if safe_integer r then Fin r else Num (round_MV rt r))"
| "js_Number rt (JObj a) = NaN"

text \<open>\<^verbatim>\<open>Number.isInteger\<close>, and \<^verbatim>\<open>v <= 1\<close> (false when \<open>v\<close> converts to \<^verbatim>\<open>NaN\<close>).\<close>

fun isInteger :: "jsnum \<Rightarrow> bool" where
  "isInteger (Num (Finite r)) = (of_int \<lfloor>r\<rfloor> = r)"
| "isInteger n = False"

fun num_le_one :: "jsnum \<Rightarrow> bool" where
  "num_le_one (Num (Finite r)) = (r \<le> 1)"
| "num_le_one (Num NegInf) = True"
| "num_le_one n = False"

definition js_le_one :: "runtime \<Rightarrow> jsval \<Rightarrow> bool" where
  "js_le_one rt v = num_le_one (js_Number rt v)"

text \<open>
  \<^verbatim>\<open>x + 1\<close> and \<^verbatim>\<open>String(x)\<close> on a number. The sum is exact when \<open>x\<close> is an
  integer below \<open>2^53\<close> in magnitude; a safe integer prints as its decimal digits, with
  a minus sign.
\<close>

fun js_plus_one :: "runtime \<Rightarrow> jsnum \<Rightarrow> jsnum" where
  "js_plus_one rt (Num (Finite r)) =
     (if of_int \<lfloor>r\<rfloor> = r \<and> \<bar>r\<bar> < 2 ^ 53 then Fin (r + 1) else Fin (add_one_inexact rt r))"
| "js_plus_one rt n = n"

fun show_nat :: "nat \<Rightarrow> string" where
  "show_nat n =
     (if n < 10 then [''0123456789'' ! n]
      else show_nat (n div 10) @ [''0123456789'' ! (n mod 10)])"

declare show_nat.simps [simp del]

definition show_int :: "int \<Rightarrow> string" where
  "show_int i = (if i < 0 then CHR ''-'' # show_nat (nat (- i)) else show_nat (nat i))"

fun js_String :: "runtime \<Rightarrow> jsnum \<Rightarrow> string" where
  "js_String rt NaN = ''NaN''"
| "js_String rt (Num PosInf) = ''Infinity''"
| "js_String rt (Num NegInf) = ''-Infinity''"
| "js_String rt (Num (Finite r)) =
     (if safe_integer r then show_int \<lfloor>r\<rfloor> else toString_inexact rt r)"

section \<open>Schema registry\<close>

text \<open>
  The column labels of the sheets are Chinese; each is written here as its UTF-8 bytes,
  named after the record key that \<^verbatim>\<open>HEADER_TO_KEY_MAP\<close> gives it (the code points
  are in the comment above each). \<open>H_deviceScale\<close> is the label shared by the IOT
  and DT schemas.
\<close>

(* U+4E8B U+4EF6 I D *)
definition H_eventId :: string where
  "H_eventId =
     [CHR 0xE4, CHR 0xBA, CHR 0x8B, CHR 0xE4, CHR 0xBB, CHR 0xB6, CHR ''I'', CHR ''D'']"

(* U+4E8B U+4EF6 U+540D U+7A31 *)
definition H_eventName :: string where
  "H_eventName =
     [CHR 0xE4, CHR 0xBA, CHR 0x8B, CHR 0xE4, CHR 0xBB, CHR 0xB6, CHR 0xE5, CHR 0x90, CHR 0x8D, CHR 0xE7, CHR 0xA8, CHR 0xB1]"

(* U+95DC U+806F U+6A5F U+6703 I D *)
definition H_opportunityId :: string where
  "H_opportunityId =
     [CHR 0xE9, CHR 0x97, CHR 0x9C, CHR 0xE8, CHR 0x81, CHR 0xAF, CHR 0xE6, CHR 0xA9, CHR 0x9F, CHR 0xE6, CHR 0x9C, CHR 0x83, CHR ''I'', CHR ''D'']"

(* U+95DC U+806F U+516C U+53F8 I D *)
definition H_companyId :: string where
  "H_companyId =
     [CHR 0xE9, CHR 0x97, CHR 0x9C, CHR 0xE8, CHR 0x81, CHR 0xAF, CHR 0xE5, CHR 0x85, CHR 0xAC, CHR 0xE5, CHR 0x8F, CHR 0xB8, CHR ''I'', CHR ''D'']"

(* U+5EFA U+7ACB U+8005 *)
definition H_creator :: string where
  "H_creator =
     [CHR 0xE5, CHR 0xBB, CHR 0xBA, CHR 0xE7, CHR 0xAB, CHR 0x8B, CHR 0xE8, CHR 0x80, CHR 0x85]"

(* U+5EFA U+7ACB U+6642 U+9593 *)
definition H_createdTime :: string where
  "H_createdTime =
     [CHR 0xE5, CHR 0xBB, CHR 0xBA, CHR 0xE7, CHR 0xAB, CHR 0x8B, CHR 0xE6, CHR 0x99, CHR 0x82, CHR 0xE9, CHR 0x96, CHR 0x93]"

(* U+6700 U+5F8C U+4FEE U+6539 U+6642 U+9593 *)
definition H_lastModifiedTime :: string where
  "H_lastModifiedTime =
     [CHR 0xE6, CHR 0x9C, CHR 0x80, CHR 0xE5, CHR 0xBE, CHR 0x8C, CHR 0xE4, CHR 0xBF, CHR 0xAE, CHR 0xE6, CHR 0x94, CHR 0xB9, CHR 0xE6, CHR 0x99, CHR 0x82, CHR 0xE9, CHR 0x96, CHR 0x93]"

(* U+6211 U+65B9 U+8207 U+6703 U+4EBA U+54E1 *)
definition H_ourParticipants :: string where
  "H_ourParticipants =
     [CHR 0xE6, CHR 0x88, CHR 0x91, CHR 0xE6, CHR 0x96, CHR 0xB9, CHR 0xE8, CHR 0x88, CHR 0x87, CHR 0xE6, CHR 0x9C, CHR 0x83, CHR 0xE4, CHR 0xBA, CHR 0xBA, CHR 0xE5, CHR 0x93, CHR 0xA1]"

(* U+5BA2 U+6236 U+8207 U+6703 U+4EBA U+54E1 *)
definition H_clientParticipants :: string where
  "H_clientParticipants =
     [CHR 0xE5, CHR 0xAE, CHR 0xA2, CHR 0xE6, CHR 0x88, CHR 0xB6, CHR 0xE8, CHR 0x88, CHR 0x87, CHR 0xE6, CHR 0x9C, CHR 0x83, CHR 0xE4, CHR 0xBA, CHR 0xBA, CHR 0xE5, CHR 0x93, CHR 0xA1]"

(* U+6703 U+8B70 U+5730 U+9EDE *)
definition H_visitPlace :: string where
  "H_visitPlace =
     [CHR 0xE6, CHR 0x9C, CHR 0x83, CHR 0xE8, CHR 0xAD, CHR 0xB0, CHR 0xE5, CHR 0x9C, CHR 0xB0, CHR 0xE9, CHR 0xBB, CHR 0x9E]"

(* U+6703 U+8B70 U+5167 U+5BB9 *)
definition H_eventContent :: string where
  "H_eventContent =
     [CHR 0xE6, CHR 0x9C, CHR 0x83, CHR 0xE8, CHR 0xAD, CHR 0xB0, CHR 0xE5, CHR 0x85, CHR 0xA7, CHR 0xE5, CHR 0xAE, CHR 0xB9]"

(* U+5BA2 U+6236 U+63D0 U+554F *)
definition H_clientQuestions :: string where
  "H_clientQuestions =
     [CHR 0xE5, CHR 0xAE, CHR 0xA2, CHR 0xE6, CHR 0x88, CHR 0xB6, CHR 0xE6, CHR 0x8F, CHR 0x90, CHR 0xE5, CHR 0x95, CHR 0x8F]"

(* U+5BA2 U+6236 U+60C5 U+5831 *)
definition H_clientIntelligence :: string where
  "H_clientIntelligence =
     [CHR 0xE5, CHR 0xAE, CHR 0xA2, CHR 0xE6, CHR 0x88, CHR 0xB6, CHR 0xE6, CHR 0x83, CHR 0x85, CHR 0xE5, CHR 0xA0, CHR 0xB1]"

(* U+5099 U+8A3B *)
definition H_eventNotes :: string where
  "H_eventNotes =
     [CHR 0xE5, CHR 0x82, CHR 0x99, CHR 0xE8, CHR 0xA8, CHR 0xBB]"

(* U+4FEE U+8A02 U+7248 U+6B21 *)
definition H_editCount :: string where
  "H_editCount =
     [CHR 0xE4, CHR 0xBF, CHR 0xAE, CHR 0xE8, CHR 0xA8, CHR 0x82, CHR 0xE7, CHR 0x89, CHR 0x88, CHR 0xE6, CHR 0xAC, CHR 0xA1]"

(* U+8A2D U+5099 U+898F U+6A21 *)
definition H_deviceScale :: string where
  "H_deviceScale =
     [CHR 0xE8, CHR 0xA8, CHR 0xAD, CHR 0xE5, CHR 0x82, CHR 0x99, CHR 0xE8, CHR 0xA6, CHR 0x8F, CHR 0xE6, CHR 0xA8, CHR 0xA1]"

(* U+751F U+7522 U+7DDA U+7279 U+5FB5 *)
definition H_iot_lineFeatures :: string where
  "H_iot_lineFeatures =
     [CHR 0xE7, CHR 0x94, CHR 0x9F, CHR 0xE7, CHR 0x94, CHR 0xA2, CHR 0xE7, CHR 0xB7, CHR 0x9A, CHR 0xE7, CHR 0x89, CHR 0xB9, CHR 0xE5, CHR 0xBE, CHR 0xB5]"

(* U+751F U+7522 U+73FE U+6CC1 *)
definition H_iot_productionStatus :: string where
  "H_iot_productionStatus =
     [CHR 0xE7, CHR 0x94, CHR 0x9F, CHR 0xE7, CHR 0x94, CHR 0xA2, CHR 0xE7, CHR 0x8F, CHR 0xBE, CHR 0xE6, CHR 0xB3, CHR 0x81]"

(* I o T U+73FE U+6CC1 *)
definition H_iot_iotStatus :: string where
  "H_iot_iotStatus =
     [CHR ''I'', CHR ''o'', CHR ''T'', CHR 0xE7, CHR 0x8F, CHR 0xBE, CHR 0xE6, CHR 0xB3, CHR 0x81]"

(* U+75DB U+9EDE U+5206 U+985E *)
definition H_iot_painPoints :: string where
  "H_iot_painPoints =
     [CHR 0xE7, CHR 0x97, CHR 0x9B, CHR 0xE9, CHR 0xBB, CHR 0x9E, CHR 0xE5, CHR 0x88, CHR 0x86, CHR 0xE9, CHR 0xA1, CHR 0x9E]"

(* U+5BA2 U+6236 U+75DB U+9EDE U+8AAA U+660E *)
definition H_iot_painPointDetails :: string where
  "H_iot_painPointDetails =
     [CHR 0xE5, CHR 0xAE, CHR 0xA2, CHR 0xE6, CHR 0x88, CHR 0xB6, CHR 0xE7, CHR 0x97, CHR 0x9B, CHR 0xE9, CHR 0xBB, CHR 0x9E, CHR 0xE8, CHR 0xAA, CHR 0xAA, CHR 0xE6, CHR 0x98, CHR 0x8E]"

(* U+75DB U+9EDE U+5206 U+6790 U+8207 U+5C0D U+7B56 *)
definition H_iot_painPointAnalysis :: string where
  "H_iot_painPointAnalysis =
     [CHR 0xE7, CHR 0x97, CHR 0x9B, CHR 0xE9, CHR 0xBB, CHR 0x9E, CHR 0xE5, CHR 0x88, CHR 0x86, CHR 0xE6, CHR 0x9E, CHR 0x90, CHR 0xE8, CHR 0x88, CHR 0x87, CHR 0xE5, CHR 0xB0, CHR 0x8D, CHR 0xE7, CHR 0xAD, CHR 0x96]"

(* U+7CFB U+7D71 U+67B6 U+69CB *)
definition H_iot_systemArchitecture :: string where
  "H_iot_systemArchitecture =
     [CHR 0xE7, CHR 0xB3, CHR 0xBB, CHR 0xE7, CHR 0xB5, CHR 0xB1, CHR 0xE6, CHR 0x9E, CHR 0xB6, CHR 0xE6, CHR 0xA7, CHR 0x8B]"

(* U+52A0 U+5DE5 U+985E U+578B *)
definition H_dt_processingType :: string where
  "H_dt_processingType =
     [CHR 0xE5, CHR 0x8A, CHR 0xA0, CHR 0xE5, CHR 0xB7, CHR 0xA5, CHR 0xE9, CHR 0xA1, CHR 0x9E, CHR 0xE5, CHR 0x9E, CHR 0x8B]"

(* U+52A0 U+5DE5 U+7522 U+696D U+5225 *)
definition H_dt_industry :: string where
  "H_dt_industry =
     [CHR 0xE5, CHR 0x8A, CHR 0xA0, CHR 0xE5, CHR 0xB7, CHR 0xA5, CHR 0xE7, CHR 0x94, CHR 0xA2, CHR 0xE6, CHR 0xA5, CHR 0xAD, CHR 0xE5, CHR 0x88, CHR 0xA5]"

definition HEADER_TO_KEY_MAP :: "(string \<times> string) list" where
  "HEADER_TO_KEY_MAP =
     [(H_eventId, ''eventId''),
      (H_eventName, ''eventName''),
      (H_opportunityId, ''opportunityId''),
      (H_companyId, ''companyId''),
      (H_creator, ''creator''),
      (H_createdTime, ''createdTime''),
      (H_lastModifiedTime, ''lastModifiedTime''),
      (H_ourParticipants, ''ourParticipants''),
      (H_clientParticipants, ''clientParticipants''),
      (H_visitPlace, ''visitPlace''),
      (H_eventContent, ''eventContent''),
      (H_clientQuestions, ''clientQuestions''),
      (H_clientIntelligence, ''clientIntelligence''),
      (H_eventNotes, ''eventNotes''),
      (H_editCount, ''editCount''),
      (H_deviceScale, ''iot_deviceScale''),
      (H_iot_lineFeatures, ''iot_lineFeatures''),
      (H_iot_productionStatus, ''iot_productionStatus''),
      (H_iot_iotStatus, ''iot_iotStatus''),
      (H_iot_painPoints, ''iot_painPoints''),
      (H_iot_painPointDetails, ''iot_painPointDetails''),
      (H_iot_painPointAnalysis, ''iot_painPointAnalysis''),
      (H_iot_systemArchitecture, ''iot_systemArchitecture''),
      (H_dt_processingType, ''dt_processingType''),
      (H_dt_industry, ''dt_industry'')]"

text \<open>
  The configuration (\<^verbatim>\<open>this.config\<close> of the base writer) holds the sheet names and
  the ordered column labels of each schema; it is a parameter of every operation.
\<close>

record config =
  EVENT_LOGS_GENERAL :: string
  EVENT_LOGS_IOT :: string
  EVENT_LOGS_DT :: string
  EVENT_LOGS_DX :: string
  EVENT_LOG_COMMON_FIELDS :: "string list"
  EVENT_LOG_IOT_FIELDS :: "string list"
  EVENT_LOG_DT_FIELDS :: "string list"

definition getSheetNameByType :: "config \<Rightarrow> jsval \<Rightarrow> string" where
  "getSheetNameByType cfg type =
     (if type = JStr ''iot'' then EVENT_LOGS_IOT cfg
      else if type = JStr ''dt'' then EVENT_LOGS_DT cfg
      else if type = JStr ''dx'' then EVENT_LOGS_DX cfg
      else EVENT_LOGS_GENERAL cfg)"

definition getFieldsByType :: "config \<Rightarrow> jsval \<Rightarrow> string list" where
  "getFieldsByType cfg type =
     (let commonFields = EVENT_LOG_COMMON_FIELDS cfg in
      if type = JStr ''iot'' then commonFields @ EVENT_LOG_IOT_FIELDS cfg
      else if type = JStr ''dt'' then commonFields @ EVENT_LOG_DT_FIELDS cfg
      else commonFields)"

text \<open>
  The key of a column label, as \<^verbatim>\<open>createEventLog\<close> computes it inside its
  \<^verbatim>\<open>headers.map\<close> and as \<^verbatim>\<open>updateEventLog\<close> computes it inside its
  \<^verbatim>\<open>headers.forEach\<close>: the two sites are written out separately in the source.
  \<open>None\<close> is \<^verbatim>\<open>undefined\<close>, the result of a label that is not in the map.
\<close>

definition create_key :: "jsval \<Rightarrow> string \<Rightarrow> string option" where
  "create_key eventType header =
     (if header = H_deviceScale then
        (if eventType = JStr ''iot'' then Some ''iot_deviceScale''
         else if eventType = JStr ''dt'' then Some ''dt_deviceScale''
         else map_of HEADER_TO_KEY_MAP header)
      else map_of HEADER_TO_KEY_MAP header)"

definition update_key :: "jsval \<Rightarrow> string \<Rightarrow> string option" where
  "update_key eventType header =
     (if header = H_deviceScale then
        (if eventType = JStr ''iot'' then Some ''iot_deviceScale''
         else if eventType = JStr ''dt'' then Some ''dt_deviceScale''
         else map_of HEADER_TO_KEY_MAP header)
      else map_of HEADER_TO_KEY_MAP header)"

text \<open>\<^verbatim>\<open>(key && data[key] !== undefined) ? data[key] : other\<close>.\<close>

definition supplied :: "obj \<Rightarrow> string option \<Rightarrow> bool" where
  "supplied data key = (case key of None \<Rightarrow> False | Some k \<Rightarrow> k \<noteq> [] \<and> data k \<noteq> JUndefined)"

section \<open>Effects\<close>

text \<open>
  The spreadsheet client, the base writer's \<^verbatim>\<open>_deleteRow\<close>, the readers and the
  clock are collaborators of the code under study. An operation is modelled by its
  outcome together with the list of collaborator calls it issues, in order; what each
  call answers is a parameter (\<open>world\<close>). A call that throws ends the operation with
  that error unless the source catches it.
\<close>

datatype error =
    InvalidArgument          \<comment> \<open>the writer's "invalid rowIndex" error\<close>
  | NotFound                 \<comment> \<open>the writer's "event row not found" error\<close>
  | TypeError                \<comment> \<open>a property read on undefined or null, a call of a missing method\<close>
  | EventIdNotFound          \<comment> \<open>the service's "Update Failed: Event ID ... not found."\<close>
  | InvalidResolvedRowIndex  \<comment> \<open>the service's "Invalid resolved rowIndex"\<close>
  | Failure nat              \<comment> \<open>an error thrown by a collaborator\<close>

text \<open>
  The range \<^verbatim>\<open>`${sheetName}!A${rowIndex}:${lastColumnChar}${rowIndex}`\<close>, kept as
  the three values the template is filled with.
\<close>

datatype range = Range string jsval char

datatype call =
    SheetsAppend string "jsval list"   \<comment> \<open>\<^verbatim>\<open>values.append\<close> on \<^verbatim>\<open>`${sheetName}!A:Z`\<close>\<close>
  | SheetsGet range
  | SheetsUpdate range "jsval list"
  | DeleteRow string jsval             \<comment> \<open>\<^verbatim>\<open>_deleteRow(sheetName, rowIndex, reader)\<close>\<close>
  | WriterInvalidate string            \<comment> \<open>\<^verbatim>\<open>invalidateCache\<close> on the writer's reader\<close>
  | ServiceInvalidate string           \<comment> \<open>\<^verbatim>\<open>invalidateCache\<close> on the service's reader\<close>
  | ServiceClearCache                  \<comment> \<open>\<^verbatim>\<open>eventReader.cache = {}\<close>\<close>
  | GetEventLogs
  | CalendarSync                       \<comment> \<open>the calendar block of \<^verbatim>\<open>createEvent\<close> is entered\<close>

record reader =
  has_invalidateCache :: bool                      \<comment> \<open>\<^verbatim>\<open>typeof invalidateCache === 'function'\<close>\<close>
  invalidateCache :: "string \<Rightarrow> error option"     \<comment> \<open>\<open>Some e\<close>: the call throws \<open>e\<close>\<close>
  has_cache :: bool                                \<comment> \<open>\<^verbatim>\<open>reader.cache\<close> is truthy\<close>

record world =
  sheets_append :: "string \<Rightarrow> jsval list \<Rightarrow> error option"
  sheets_get :: "range \<Rightarrow> error + string list list option"
  sheets_update :: "range \<Rightarrow> jsval list \<Rightarrow> error option"
  base_deleteRow :: "string \<Rightarrow> jsval \<Rightarrow> error option"
  eventLogReader :: reader                         \<comment> \<open>the reader injected into the writer\<close>
  eventReader :: reader                            \<comment> \<open>the reader injected into the service\<close>
  getEventLogs :: "error + obj list"
  calendar_sync :: "obj \<Rightarrow> error option"           \<comment> \<open>building the payload and \<^verbatim>\<open>calendarService.createEvent\<close>\<close>
  now_iso :: string                                \<comment> \<open>\<^verbatim>\<open>new Date().toISOString()\<close>\<close>
  now_ms :: nat                                    \<comment> \<open>\<^verbatim>\<open>Date.now()\<close>\<close>
  js :: runtime                                    \<comment> \<open>the engine's answers on doubles\<close>

type_synonym 'a io = "(error + 'a) \<times> call list"

definition ret :: "'a \<Rightarrow> 'a io" where
  "ret x = (Inr x, [])"

definition throw :: "error \<Rightarrow> 'a io" where
  "throw e = (Inl e, [])"

definition fetch :: "call \<Rightarrow> error + 'a \<Rightarrow> 'a io" where
  "fetch c answer = (answer, [c])"

definition invoke :: "call \<Rightarrow> error option \<Rightarrow> unit io" where
  "invoke c answer = (case answer of None \<Rightarrow> (Inr (), [c]) | Some e \<Rightarrow> (Inl e, [c]))"

definition bind :: "'a io \<Rightarrow> ('a \<Rightarrow> 'b io) \<Rightarrow> 'b io" where
  "bind m f =
     (case m of
        (Inl e, t) \<Rightarrow> (Inl e, t)
      | (Inr x, t) \<Rightarrow> (case f x of (r, t') \<Rightarrow> (r, t @ t')))"

definition try_catch :: "'a io \<Rightarrow> (error \<Rightarrow> 'a io) \<Rightarrow> 'a io" where
  "try_catch m handler =
     (case m of
        (Inl e, t) \<Rightarrow> (case handler e of (r, t') \<Rightarrow> (r, t @ t'))
      | (Inr x, t) \<Rightarrow> (Inr x, t))"

text \<open>What an operation answers and which calls it made.\<close>

definition outcome :: "'a io \<Rightarrow> error + 'a" where
  "outcome m = fst m"

definition calls :: "'a io \<Rightarrow> call list" where
  "calls m = snd m"

section \<open>Event record repository (the writer)\<close>

record result =
  success :: bool
  result_id :: "string option"     \<comment> \<open>the property \<^verbatim>\<open>id\<close>, when present\<close>
  moved :: bool                    \<comment> \<open>the property \<^verbatim>\<open>moved: true\<close>, when present\<close>

text \<open>\<^verbatim>\<open>this.eventLogReader.invalidateCache('eventLogs')\<close>, outside any \<^verbatim>\<open>try\<close>.\<close>

definition writer_invalidate :: "world \<Rightarrow> string \<Rightarrow> unit io" where
  "writer_invalidate w key =
     (if has_invalidateCache (eventLogReader w)
      then invoke (WriterInvalidate key) (invalidateCache (eventLogReader w) key)
      else throw TypeError)"

subsection \<open>EventLogWriter.createEventLog\<close>

definition create_cell :: "obj \<Rightarrow> jsval \<Rightarrow> string \<Rightarrow> string \<Rightarrow> string \<Rightarrow> jsval" where
  "create_cell data creator now eventId header =
     (let key = create_key (data ''eventType'') header in
      if header = H_eventId then JStr eventId
      else if header = H_creator then creator
      else if header = H_createdTime then JStr now
      else if header = H_lastModifiedTime then JStr now
      else if header = H_editCount then JStr ''1''
      else if supplied data key then data (the key) else JStr [])"

definition writer_createEventLog :: "config \<Rightarrow> world \<Rightarrow> obj option \<Rightarrow> jsval \<Rightarrow> result io" where
  "writer_createEventLog cfg w data_opt creator =
     (case data_opt of
        None \<Rightarrow> throw TypeError
      | Some data \<Rightarrow>
          (let now = now_iso w;
               eventId = ''EVT'' @ show_nat (now_ms w);
               sheetName = getSheetNameByType cfg (data ''eventType'');
               headers = getFieldsByType cfg (data ''eventType'');
               rowData = map (create_cell data creator now eventId) headers
           in bind (invoke (SheetsAppend sheetName rowData) (sheets_append w sheetName rowData)) (\<lambda>_.
              bind (writer_invalidate w ''eventLogs'') (\<lambda>_.
              ret \<lparr>success = True, result_id = Some eventId, moved = False\<rparr>))))"

subsection \<open>EventLogWriter.updateEventLog\<close>

text \<open>\<^verbatim>\<open>while (currentRow.length < headers.length) currentRow.push('')\<close>.\<close>

function pad_row :: "nat \<Rightarrow> jsval list \<Rightarrow> jsval list" where
  "pad_row n row = (if length row < n then pad_row n (row @ [JStr []]) else row)"
  by pat_completeness auto
termination
  by (relation "measure (\<lambda>(n, row). n - length row)") auto

declare pad_row.simps [simp del]

text \<open>
  The body of \<^verbatim>\<open>headers.forEach((header, index) => ...)\<close> for one column, as a
  function of the cell it finds at \<open>index\<close>: the revision is
  \<^verbatim>\<open>String((parseInt(cell) || 1) + 1)\<close>.
\<close>

definition update_cell :: "runtime \<Rightarrow> obj \<Rightarrow> string \<Rightarrow> string \<Rightarrow> jsval \<Rightarrow> jsval" where
  "update_cell rt data now header cell =
     (let key = update_key (data ''eventType'') header in
      if header = H_lastModifiedTime then JStr now
      else if header = H_editCount then
        (let parsed = js_parseInt rt cell;
             currentVer = (if truthy (JNum parsed) then parsed else Fin 1)
         in JStr (js_String rt (js_plus_one rt currentVer)))
      else if supplied data key then data (the key)
      else cell)"

fun forEach_header :: "(string \<Rightarrow> jsval \<Rightarrow> jsval) \<Rightarrow> string list \<Rightarrow> nat \<Rightarrow> jsval list \<Rightarrow> jsval list" where
  "forEach_header f [] index currentRow = currentRow"
| "forEach_header f (header # rest) index currentRow =
     forEach_header f rest (Suc index) (currentRow[index := f header (currentRow ! index)])"

text \<open>
  \<^verbatim>\<open>response.data.values ? response.data.values[0] : []\<close>; an empty \<^verbatim>\<open>values\<close>
  array has no element 0, and reading \<^verbatim>\<open>length\<close> of \<^verbatim>\<open>undefined\<close> throws.
  The cells of a response are strings (the read asks for formatted values).
\<close>

definition first_row :: "string list list option \<Rightarrow> jsval list io" where
  "first_row values =
     (case values of
        None \<Rightarrow> ret []
      | Some [] \<Rightarrow> throw TypeError
      | Some (r # rs) \<Rightarrow> ret (map JStr r))"

text \<open>The guard \<^verbatim>\<open>isNaN(parseInt(rowIndex)) || rowIndex <= 1\<close>.\<close>

definition invalid_rowIndex :: "runtime \<Rightarrow> jsval \<Rightarrow> bool" where
  "invalid_rowIndex rt rowIndex = (js_parseInt rt rowIndex = NaN \<or> js_le_one rt rowIndex)"

text \<open>
  The range of the row: its last column letter is
  \<^verbatim>\<open>String.fromCharCode(65 + headers.length - 1)\<close>.
\<close>

definition row_range :: "config \<Rightarrow> obj \<Rightarrow> jsval \<Rightarrow> range" where
  "row_range cfg data rowIndex =
     (let sheetName = getSheetNameByType cfg (data ''eventType'');
          headers = getFieldsByType cfg (data ''eventType'');
          lastColumnChar = char_of (65 + length headers - 1)
      in Range sheetName rowIndex lastColumnChar)"

text \<open>The row written back: the row read, padded, after the \<^verbatim>\<open>forEach\<close>.\<close>

definition updated_row :: "runtime \<Rightarrow> obj \<Rightarrow> string \<Rightarrow> string list \<Rightarrow> jsval list \<Rightarrow> jsval list" where
  "updated_row rt data now headers currentRow =
     forEach_header (update_cell rt data now) headers 0 (pad_row (length headers) currentRow)"

definition writer_updateEventLog :: "config \<Rightarrow> world \<Rightarrow> jsval \<Rightarrow> obj option \<Rightarrow> jsval \<Rightarrow> result io" where
  "writer_updateEventLog cfg w rowIndex data_opt modifier =
     (if invalid_rowIndex (js w) rowIndex then throw InvalidArgument
      else case data_opt of
        None \<Rightarrow> throw TypeError
      | Some data \<Rightarrow>
          (let headers = getFieldsByType cfg (data ''eventType'');
               now = now_iso w;
               range = row_range cfg data rowIndex
           in bind (fetch (SheetsGet range) (sheets_get w range)) (\<lambda>values.
              bind (first_row values) (\<lambda>currentRow.
              if length currentRow = 0 then throw NotFound
              else
                (let newRow = updated_row (js w) data now headers currentRow
                 in bind (invoke (SheetsUpdate range newRow) (sheets_update w range newRow)) (\<lambda>_.
                    bind (writer_invalidate w ''eventLogs'') (\<lambda>_.
                    ret \<lparr>success = True, result_id = None, moved = False\<rparr>)))))))"

subsection \<open>EventLogWriter.deleteEventLog\<close>

definition writer_deleteEventLog :: "config \<Rightarrow> world \<Rightarrow> jsval \<Rightarrow> jsval \<Rightarrow> result io" where
  "writer_deleteEventLog cfg w rowIndex eventType =
     (let sheetName = getSheetNameByType cfg eventType
      in bind (invoke (DeleteRow sheetName rowIndex) (base_deleteRow w sheetName rowIndex)) (\<lambda>_.
         ret \<lparr>success = True, result_id = None, moved = False\<rparr>))"

section \<open>Event log service\<close>

text \<open>\<^verbatim>\<open>o?.k\<close> on a value that is an object, or \<^verbatim>\<open>null\<close>/\<^verbatim>\<open>undefined\<close> (\<open>None\<close>).\<close>

definition opt_prop :: "obj option \<Rightarrow> string \<Rightarrow> jsval" where
  "opt_prop ob k = (case ob of None \<Rightarrow> JUndefined | Some x \<Rightarrow> x k)"

definition invalidateEventCacheSafe :: "world \<Rightarrow> unit io" where
  "invalidateEventCacheSafe w =
     try_catch
       (if has_invalidateCache (eventReader w)
        then invoke (ServiceInvalidate ''eventLogs'') (invalidateCache (eventReader w) ''eventLogs'')
        else if has_cache (eventReader w) then invoke ServiceClearCache None
        else ret ())
       (\<lambda>e. ret ())"

text \<open>\<^verbatim>\<open>user?.displayName || user?.username || 'System'\<close>.\<close>

definition modifier_of :: "obj option \<Rightarrow> jsval" where
  "modifier_of user =
     js_or (js_or (opt_prop user ''displayName'') (opt_prop user ''username'')) (JStr ''System'')"

definition service_createEvent :: "config \<Rightarrow> world \<Rightarrow> obj option \<Rightarrow> obj option \<Rightarrow> result io" where
  "service_createEvent cfg w data_opt user =
     (let modifier = modifier_of user in
      bind (writer_createEventLog cfg w data_opt modifier) (\<lambda>result.
      bind (invalidateEventCacheSafe w) (\<lambda>_.
      bind (case data_opt of
              None \<Rightarrow> throw TypeError
            | Some data \<Rightarrow>
                if success result \<and> strict_eq (data ''syncToCalendar'') (JStr ''true'')
                then try_catch (invoke CalendarSync (calendar_sync w data)) (\<lambda>calError. ret ())
                else ret ()) (\<lambda>_.
      ret result))))"

definition service_updateEvent :: "config \<Rightarrow> world \<Rightarrow> jsval \<Rightarrow> obj option \<Rightarrow> obj option \<Rightarrow> result io" where
  "service_updateEvent cfg w rowIndex data_opt user =
     (let modifier = modifier_of user in
      bind (writer_updateEventLog cfg w rowIndex data_opt modifier) (\<lambda>result.
      bind (invalidateEventCacheSafe w) (\<lambda>_.
      ret result)))"

definition service_deleteEvent :: "config \<Rightarrow> world \<Rightarrow> jsval \<Rightarrow> jsval \<Rightarrow> result io" where
  "service_deleteEvent cfg w rowIndex eventType =
     bind (writer_deleteEventLog cfg w rowIndex eventType) (\<lambda>result.
     bind (invalidateEventCacheSafe w) (\<lambda>_.
     ret result))"

subsection \<open>EventLogService.updateEventLog\<close>

text \<open>Step 1: \<^verbatim>\<open>data?.eventId || data?.id || null\<close>.\<close>

definition inputEventId_of :: "obj option \<Rightarrow> jsval" where
  "inputEventId_of data_opt =
     js_or (js_or (opt_prop data_opt ''eventId'') (opt_prop data_opt ''id'')) JNull"

text \<open>Steps 2a and 2b: the original record, by \<^verbatim>\<open>eventId\<close> and else by row index.\<close>

definition resolve_original :: "runtime \<Rightarrow> obj list \<Rightarrow> jsval \<Rightarrow> jsval \<Rightarrow> obj option" where
  "resolve_original rt logs inputEventId idOrRowIndex =
     (let original =
            (if truthy inputEventId
             then find (\<lambda>l. strict_eq (l ''eventId'') inputEventId) logs
             else None)
      in case original of
           Some l \<Rightarrow> Some l
         | None \<Rightarrow>
             (let candidateRow = js_Number rt idOrRowIndex in
              if isInteger candidateRow
              then find (\<lambda>l. strict_eq (JNum (js_Number rt (l ''rowIndex''))) (JNum candidateRow)) logs
              else None))"

text \<open>Step 3: the row index handed to the writer.\<close>

definition resolve_rowIndex :: "runtime \<Rightarrow> obj list \<Rightarrow> jsval \<Rightarrow> jsnum io" where
  "resolve_rowIndex rt logs idOrRowIndex =
     bind (case idOrRowIndex of
             JStr s \<Rightarrow>
               if js_Number rt (JStr s) = NaN then
                 (case find (\<lambda>l. strict_eq (l ''eventId'') (JStr s)) logs of
                    None \<Rightarrow> throw EventIdNotFound
                  | Some target \<Rightarrow>
                      if \<not> truthy (target ''rowIndex'') then throw EventIdNotFound
                      else ret (target ''rowIndex''))
               else ret idOrRowIndex
           | _ \<Rightarrow> ret idOrRowIndex) (\<lambda>rowIndex.
     if \<not> isInteger (js_Number rt rowIndex) then throw InvalidResolvedRowIndex
     else ret (js_Number rt rowIndex))"

text \<open>Step 4: the test for a change of event type.\<close>

definition type_changed :: "obj option \<Rightarrow> obj option \<Rightarrow> bool" where
  "type_changed original data_opt =
     (case original of
        None \<Rightarrow> False
      | Some orig \<Rightarrow>
          (case data_opt of
             None \<Rightarrow> False
           | Some data \<Rightarrow>
               truthy (data ''eventType'') \<and> truthy (orig ''eventType'')
               \<and> \<not> strict_eq (data ''eventType'') (orig ''eventType'')))"

text \<open>The payload of the re-creation: a copy of \<open>data\<close> with the identity pinned.\<close>

definition move_payload :: "obj \<Rightarrow> obj \<Rightarrow> obj" where
  "move_payload orig data =
     (let payload = data(''eventId'' := orig ''eventId'', ''id'' := orig ''eventId'') in
      if \<not> truthy (payload ''createdTime'') \<and> truthy (orig ''createdTime'')
      then payload(''createdTime'' := orig ''createdTime'')
      else payload)"

definition service_updateEventLog :: "config \<Rightarrow> world \<Rightarrow> jsval \<Rightarrow> obj option \<Rightarrow> jsval \<Rightarrow> result io" where
  "service_updateEventLog cfg w idOrRowIndex data_opt modifier =
     (let inputEventId = inputEventId_of data_opt in
      bind (fetch GetEventLogs (getEventLogs w)) (\<lambda>logs.
      let original = resolve_original (js w) logs inputEventId idOrRowIndex in
      bind (resolve_rowIndex (js w) logs idOrRowIndex) (\<lambda>rowIndex.
      if type_changed original data_opt then
        (let orig = the original; data = the data_opt in
         bind (writer_deleteEventLog cfg w (orig ''rowIndex'') (orig ''eventType'')) (\<lambda>_.
         bind (writer_createEventLog cfg w (Some (move_payload orig data)) modifier) (\<lambda>createResult.
         bind (invalidateEventCacheSafe w) (\<lambda>_.
         ret (createResult\<lparr>moved := True\<rparr>)))))
      else service_updateEvent cfg w (JNum rowIndex) data_opt
             (Some (empty_obj(''displayName'' := modifier))))))"

section \<open>Join and presentation\<close>

text \<open>
  The readers hand out the objects of their cache, so whether the service changes a
  cached record depends on which object it writes to. Objects live in a store: the
  reference \<open>a\<close> denotes \<open>h ! a\<close>, and a new object is put at the end.
\<close>

type_synonym heap = "obj list"

definition alloc :: "heap \<Rightarrow> obj \<Rightarrow> nat \<times> heap" where
  "alloc h ob = (length h, h @ [ob])"

text \<open>
  \<^verbatim>\<open>new Map(xs.map(x => [x[idKey], x[nameKey]])).get(k)\<close>: the last entry with the
  key wins, a key that is absent gives \<^verbatim>\<open>undefined\<close>.
\<close>

definition name_map :: "string \<Rightarrow> string \<Rightarrow> obj list \<Rightarrow> jsval \<Rightarrow> jsval" where
  "name_map idKey nameKey xs k =
     (case find (\<lambda>x. x idKey = k) (rev xs) of None \<Rightarrow> JUndefined | Some x \<Rightarrow> x nameKey)"

definition with_id_alias :: "obj \<Rightarrow> obj" where
  "with_id_alias e =
     (if \<not> truthy (e ''id'') \<and> truthy (e ''eventId'') then e(''id'' := e ''eventId'') else e)"

definition with_names :: "(jsval \<Rightarrow> jsval) \<Rightarrow> (jsval \<Rightarrow> jsval) \<Rightarrow> obj \<Rightarrow> obj" where
  "with_names oppMap compMap e =
     (let e1 = (if truthy (e ''opportunityId'')
                then e(''opportunityName'' := js_or (oppMap (e ''opportunityId'')) (e ''opportunityId''))
                else e)
      in if truthy (e1 ''companyId'')
         then e1(''companyName'' := js_or (compMap (e1 ''companyId'')) (e1 ''companyId''))
         else e1)"

text \<open>
  \<^verbatim>\<open>events.map(raw => { const e = { ...raw }; ...; return e; })\<close>: each step
  allocates the copy and returns its reference.
\<close>

fun map_events :: "(obj \<Rightarrow> obj) \<Rightarrow> nat list \<Rightarrow> heap \<Rightarrow> nat list \<times> heap" where
  "map_events f [] h = ([], h)"
| "map_events f (raw # rest) h =
     (let (e, h1) = alloc h (f (h ! raw));
          (es, h2) = map_events f rest h1
      in (e # es, h2))"

text \<open>
  The fetches are parameters: each is what the reader answered, \<open>Inl\<close> when its
  promise rejected. \<open>getAllEvents_try\<close> is the body of the \<^verbatim>\<open>try\<close>, where
  \<^verbatim>\<open>Promise.all\<close> rejects as soon as one fetch does; \<open>service_getAllEvents\<close>
  adds the \<^verbatim>\<open>catch\<close>, which returns the empty array.
\<close>

definition getAllEvents_try ::
  "heap \<Rightarrow> error + nat list \<Rightarrow> error + obj list \<Rightarrow> error + obj list \<Rightarrow> (error + nat list) \<times> heap" where
  "getAllEvents_try h events_r opps_r comps_r =
     (case events_r of
        Inl e \<Rightarrow> (Inl e, h)
      | Inr events \<Rightarrow>
          (case opps_r of
             Inl e \<Rightarrow> (Inl e, h)
           | Inr opps \<Rightarrow>
               (case comps_r of
                  Inl e \<Rightarrow> (Inl e, h)
                | Inr comps \<Rightarrow>
                    (let oppMap = name_map ''opportunityId'' ''opportunityName'' opps;
                         compMap = name_map ''companyId'' ''companyName'' comps;
                         (es, h') = map_events (\<lambda>raw. with_names oppMap compMap (with_id_alias raw)) events h
                     in (Inr es, h')))))"

definition service_getAllEvents ::
  "heap \<Rightarrow> error + nat list \<Rightarrow> error + obj list \<Rightarrow> error + obj list \<Rightarrow> (error + nat list) \<times> heap" where
  "service_getAllEvents h events_r opps_r comps_r =
     (case getAllEvents_try h events_r opps_r comps_r of
        (Inl error, h') \<Rightarrow> (Inr [], h')
      | (Inr es, h') \<Rightarrow> (Inr es, h'))"

text \<open>
  \<^verbatim>\<open>getEventById\<close>: the outer \<^verbatim>\<open>try\<close> fetches the record (\<open>None\<close>: the
  reader found nothing) and clones it; the inner \<^verbatim>\<open>try\<close> fetches the join sources
  and writes the display names on the clone, and its \<^verbatim>\<open>catch\<close> only logs; the
  outer \<^verbatim>\<open>catch\<close> returns \<^verbatim>\<open>null\<close>.
\<close>

definition getEventById_join :: "heap \<Rightarrow> nat \<Rightarrow> error + obj list \<Rightarrow> error + obj list \<Rightarrow> (error + unit) \<times> heap" where
  "getEventById_join h event opps_r comps_r =
     (case opps_r of
        Inl e \<Rightarrow> (Inl e, h)
      | Inr opps \<Rightarrow>
          (case comps_r of
             Inl e \<Rightarrow> (Inl e, h)
           | Inr comps \<Rightarrow>
               (let oppMap = name_map ''opportunityId'' ''opportunityName'' opps;
                    compMap = name_map ''companyId'' ''companyName'' comps
                in (Inr (), h[event := with_names oppMap compMap (h ! event)]))))"

definition getEventById_try ::
  "heap \<Rightarrow> error + nat option \<Rightarrow> error + obj list \<Rightarrow> error + obj list \<Rightarrow> (error + jsval) \<times> heap" where
  "getEventById_try h rawEvent_r opps_r comps_r =
     (case rawEvent_r of
        Inl e \<Rightarrow> (Inl e, h)
      | Inr None \<Rightarrow> (Inr JNull, h)
      | Inr (Some rawEvent) \<Rightarrow>
          (let (event, h1) = alloc h (with_id_alias (h ! rawEvent));
               (joined, h2) = getEventById_join h1 event opps_r comps_r
           in (Inr (JObj event), h2)))"

definition service_getEventById ::
  "heap \<Rightarrow> error + nat option \<Rightarrow> error + obj list \<Rightarrow> error + obj list \<Rightarrow> (error + jsval) \<times> heap" where
  "service_getEventById h rawEvent_r opps_r comps_r =
     (case getEventById_try h rawEvent_r opps_r comps_r of
        (Inl error, h') \<Rightarrow> (Inr JNull, h')
      | (Inr event, h') \<Rightarrow> (Inr event, h'))"

section \<open>Reference rules\<close>

text \<open>
  Closed descriptions of what an operation produces, to be compared with the code: the
  statements below are written with them.
\<close>

text \<open>
  The rule of the specification for one column of a created row, in its words: the
  identity column takes the generated id, the creator column the given creator, both
  timestamp columns the current time, the revision column the string "1", and every
  other column the payload's value at the resolved key, or the empty string when absent.
\<close>

definition spec_create_cell :: "obj \<Rightarrow> jsval \<Rightarrow> string \<Rightarrow> string \<Rightarrow> string \<Rightarrow> jsval" where
  "spec_create_cell data creator now eventId header =
     (if header = H_eventId then JStr eventId
      else if header = H_creator then creator
      else if header = H_createdTime \<or> header = H_lastModifiedTime then JStr now
      else if header = H_editCount then JStr ''1''
      else case create_key (data ''eventType'') header of
             None \<Rightarrow> JStr []
           | Some key \<Rightarrow> if data key = JUndefined then JStr [] else data key)"

text \<open>
  The display name of a reference \<open>ident\<close>, as the amended claim C8 words it: the
  name of the collaborator with that id (the last one, when several share it) when that
  name is truthy, and the raw id itself when no collaborator matches or the name is empty.
\<close>

definition display_name :: "string \<Rightarrow> string \<Rightarrow> obj list \<Rightarrow> jsval \<Rightarrow> jsval" where
  "display_name idKey nameKey xs ident =
     (case find (\<lambda>x. x idKey = ident) (rev xs) of
        None \<Rightarrow> ident
      | Some x \<Rightarrow> if truthy (x nameKey) then x nameKey else ident)"

text \<open>
  The record handed to the caller, property by property: the alias \<^verbatim>\<open>id\<close>, the two
  display fields (attached only when the reference is set), everything else as in the
  cached record.
\<close>

definition enriched :: "obj list \<Rightarrow> obj list \<Rightarrow> obj \<Rightarrow> obj" where
  "enriched opps comps raw =
     (\<lambda>k. if k = ''companyName'' \<and> truthy (raw ''companyId'')
            then display_name ''companyId'' ''companyName'' comps (raw ''companyId'')
          else if k = ''opportunityName'' \<and> truthy (raw ''opportunityId'')
            then display_name ''opportunityId'' ''opportunityName'' opps (raw ''opportunityId'')
          else if k = ''id'' \<and> \<not> truthy (raw ''id'') \<and> truthy (raw ''eventId'')
            then raw ''eventId''
          else raw k)"

text \<open>
  The key of a column label, in the words of the specification: the device-scale label,
  shared by two event types, resolves by the event type first, to the IOT key under
  \<^verbatim>\<open>iot\<close> and to the DT key under \<^verbatim>\<open>dt\<close>; every other label, and the
  device-scale label under any other type, resolves by the generic map.
\<close>

definition spec_key :: "jsval \<Rightarrow> string \<Rightarrow> string option" where
  "spec_key eventType label =
     (if label = H_deviceScale \<and> eventType = JStr ''iot'' then Some ''iot_deviceScale''
      else if label = H_deviceScale \<and> eventType = JStr ''dt'' then Some ''dt_deviceScale''
      else map_of HEADER_TO_KEY_MAP label)"

text \<open>What a payload supplies for a column: its value at the key, unless that is absent.\<close>

definition payload_value :: "obj \<Rightarrow> string option \<Rightarrow> jsval option" where
  "payload_value data key =
     (case key of
        None \<Rightarrow> None
      | Some k \<Rightarrow> if data k = JUndefined then None else Some (data k))"


section \<open>Example inputs\<close>

text \<open>
  A small configuration, a world in which every collaborator answers, and variations of
  it; the examples below run the operations on them.
\<close>

definition demo_config :: config where
  "demo_config =
     \<lparr>EVENT_LOGS_GENERAL = ''EventLogs_General'',
      EVENT_LOGS_IOT = ''EventLogs_IOT'',
      EVENT_LOGS_DT = ''EventLogs_DT'',
      EVENT_LOGS_DX = ''EventLogs_DX'',
      EVENT_LOG_COMMON_FIELDS =
        [H_eventId, H_eventName, H_creator, H_createdTime, H_lastModifiedTime, H_editCount],
      EVENT_LOG_IOT_FIELDS = [H_deviceScale],
      EVENT_LOG_DT_FIELDS = [H_dt_processingType]\<rparr>"

definition good_reader :: reader where
  "good_reader = \<lparr>has_invalidateCache = True, invalidateCache = (\<lambda>key. None), has_cache = True\<rparr>"

definition failing_reader :: reader where
  "failing_reader =
     \<lparr>has_invalidateCache = True, invalidateCache = (\<lambda>key. Some (Failure 1)), has_cache = True\<rparr>"

definition demo_log :: obj where
  "demo_log = empty_obj
     (''eventId'' := JStr ''EVT1700000000000'',
      ''eventType'' := JStr ''general'',
      ''rowIndex'' := JNum (Fin 3),
      ''eventName'' := JStr ''Visit'',
      ''creator'' := JStr ''Amy'',
      ''createdTime'' := JStr ''2026-01-01T00:00:00.000Z'')"


definition demo_row :: "string list" where
  "demo_row =
     [''EVT1700000000000'', ''Visit'', ''Amy'', ''2026-01-01T00:00:00.000Z'',
      ''2026-01-01T00:00:00.000Z'', ''3'']"

text \<open>
  A runtime for the examples. The examples stay on safe integers, where nothing is asked
  of it.
\<close>

definition demo_runtime :: runtime where
  "demo_runtime =
     \<lparr>parseInt_inexact = (\<lambda>s. PosInf),
      parseInt_printed = (\<lambda>r. 0),
      round_MV = (\<lambda>r. Finite r),
      add_one_inexact = (\<lambda>r. r),
      toString_inexact = (\<lambda>r. ''1e+21'')\<rparr>"

definition demo_world :: world where
  "demo_world =
     \<lparr>sheets_append = (\<lambda>sheetName row. None),
      sheets_get = (\<lambda>range. Inr (Some [demo_row])),
      sheets_update = (\<lambda>range row. None),
      base_deleteRow = (\<lambda>sheetName rowIndex. None),
      eventLogReader = good_reader,
      eventReader = good_reader,
      getEventLogs = Inr [demo_log],
      calendar_sync = (\<lambda>data. None),
      now_iso = ''2026-01-23T08:00:00.000Z'',
      now_ms = 1769155200000,
      js = demo_runtime\<rparr>"

definition demo_world_rev0 :: world where
  "demo_world_rev0 =
     demo_world\<lparr>sheets_get := (\<lambda>range. Inr (Some
       [[''EVT1700000000000'', ''Visit'', ''Amy'', ''2026-01-01T00:00:00.000Z'',
         ''2026-01-01T00:00:00.000Z'', ''0'']]))\<rparr>"

definition demo_world_reject :: world where
  "demo_world_reject = demo_world\<lparr>sheets_get := (\<lambda>range. Inl (Failure 400))\<rparr>"

definition demo_world_inval :: world where
  "demo_world_inval = demo_world\<lparr>eventLogReader := failing_reader\<rparr>"

definition demo_user :: obj where
  "demo_user = empty_obj(''displayName'' := JStr ''Amy'')"

definition demo_create :: obj where
  "demo_create = empty_obj
     (''eventType'' := JStr ''iot'',
      ''eventName'' := JStr ''Line audit'',
      ''iot_deviceScale'' := JStr ''40'')"

definition demo_update :: obj where
  "demo_update = empty_obj
     (''eventType'' := JStr ''general'',
      ''eventName'' := JStr ''Visit 2'')"

definition demo_move :: obj where
  "demo_move = empty_obj
     (''eventId'' := JStr ''EVT1700000000000'',
      ''eventType'' := JStr ''iot'',
      ''eventName'' := JStr ''Visit 2'')"

definition demo_event :: obj where
  "demo_event = empty_obj
     (''eventId'' := JStr ''EVT1700000000000'',
      ''opportunityId'' := JStr ''OPP1'',
      ''companyId'' := JStr ''COM1'')"

definition demo_opp :: obj where
  "demo_opp = empty_obj(''opportunityId'' := JStr ''OPP1'', ''opportunityName'' := JStr ''Retrofit'')"

definition demo_opp_unnamed :: obj where
  "demo_opp_unnamed = empty_obj(''opportunityId'' := JStr ''OPP1'', ''opportunityName'' := JStr [])"

definition demo_comp :: obj where
  "demo_comp = empty_obj(''companyId'' := JStr ''COM1'', ''companyName'' := JStr ''Acme'')"





definition demo_config_dt :: config where
  "demo_config_dt = demo_config\<lparr>EVENT_LOG_DT_FIELDS := [H_dt_processingType, H_deviceScale]\<rparr>"

definition demo_create_dt :: obj where
  "demo_create_dt = empty_obj
     (''eventType'' := JStr ''dt'',
      ''eventName'' := JStr ''Line audit'',
      ''iot_deviceScale'' := JStr ''40'',
      ''dt_deviceScale'' := JStr ''7'')"

section \<open>Basic facts\<close>

subsection \<open>Effects\<close>

lemma outcome_simps:
  "outcome (ret x) = Inr x"
  "outcome (throw e) = Inl e"
  "outcome (fetch c a) = a"
  "outcome (invoke c None) = Inr ()"
  "outcome (invoke c (Some e)) = Inl e"
  by (simp_all add: outcome_def ret_def throw_def fetch_def invoke_def)

lemma calls_simps:
  "calls (ret x) = []"
  "calls (throw e) = []"
  "calls (fetch c a) = [c]"
  "calls (invoke c b) = [c]"
  by (simp_all add: calls_def ret_def throw_def fetch_def invoke_def split: option.splits)

lemma outcome_bind:
  "outcome (bind m f) = (case outcome m of Inl e \<Rightarrow> Inl e | Inr x \<Rightarrow> outcome (f x))"
  by (cases m; cases "fst m") (auto simp: outcome_def bind_def split: prod.splits)

lemma calls_bind:
  "calls (bind m f) = (case outcome m of Inl e \<Rightarrow> calls m | Inr x \<Rightarrow> calls m @ calls (f x))"
  by (cases m; cases "fst m") (auto simp: outcome_def calls_def bind_def split: prod.splits)

lemma outcome_try_catch:
  "outcome (try_catch m h) = (case outcome m of Inl e \<Rightarrow> outcome (h e) | Inr x \<Rightarrow> Inr x)"
  by (cases m; cases "fst m") (auto simp: outcome_def try_catch_def split: prod.splits)


lemma io_eq: "m = (outcome m, calls m)"
  by (simp add: outcome_def calls_def)

subsection \<open>Labels, keys and printing\<close>

lemmas header_defs =
  H_eventId_def H_eventName_def H_opportunityId_def H_companyId_def H_creator_def H_createdTime_def H_lastModifiedTime_def H_ourParticipants_def H_clientParticipants_def H_visitPlace_def H_eventContent_def H_clientQuestions_def H_clientIntelligence_def H_eventNotes_def H_editCount_def H_deviceScale_def H_iot_lineFeatures_def H_iot_productionStatus_def H_iot_iotStatus_def H_iot_painPoints_def H_iot_painPointDetails_def H_iot_painPointAnalysis_def H_iot_systemArchitecture_def H_dt_processingType_def H_dt_industry_def

lemma map_of_key_nonempty: "map_of HEADER_TO_KEY_MAP h = Some k \<Longrightarrow> k \<noteq> []"
  by (auto simp: HEADER_TO_KEY_MAP_def split: if_splits)

lemma create_key_nonempty: "create_key t h = Some k \<Longrightarrow> k \<noteq> []"
  by (auto simp: create_key_def dest: map_of_key_nonempty split: if_splits)

lemma update_key_eq: "update_key t h = create_key t h"
  by (simp add: update_key_def create_key_def)

lemma deviceScale_generic: "map_of HEADER_TO_KEY_MAP H_deviceScale = Some ''iot_deviceScale''"
  by (simp add: HEADER_TO_KEY_MAP_def header_defs)

lemma system_headers_distinct:
  "distinct [H_eventId, H_creator, H_createdTime, H_lastModifiedTime, H_editCount, H_deviceScale]"
  by (simp add: header_defs)

lemma show_nat_nonempty: "show_nat n \<noteq> []"
  by (induction n rule: show_nat.induct) (subst show_nat.simps, simp)

lemma digit_char:
  assumes "d < 10"
  shows "is_digit 10 (''0123456789'' ! d)"
proof -
  have "list_all (is_digit 10) ''0123456789''"
    by (simp add: is_digit_def digit_of_def)
  with assms show ?thesis
    unfolding list_all_length by simp
qed

lemma show_nat_digits: "list_all (is_digit 10) (show_nat n)"
proof (induction n rule: show_nat.induct)
  case (1 n)
  show ?case
  proof (cases "n < 10")
    case True
    then show ?thesis by (subst show_nat.simps) (simp add: digit_char)
  next
    case False
    with 1 show ?thesis by (subst show_nat.simps) (simp add: digit_char)
  qed
qed

lemma column_letters:
  "char_of (70::nat) = CHR ''F''" "char_of (71::nat) = CHR ''G''"
  by (simp_all add: char_of_eq_iff)

lemma skip_seqs_other:
  assumes "c \<notin> hd ` set seqs"
  shows "skip_seqs seqs (c # s) = c # s"
proof -
  have "\<not> (p \<noteq> [] \<and> take (length p) (c # s) = p)" if "p \<in> set seqs" for p
  proof (cases p)
    case Nil
    then show ?thesis by simp
  next
    case (Cons a q)
    with that assms have "a \<noteq> c" by force
    with Cons show ?thesis by simp
  qed
  then have "find (\<lambda>p. p \<noteq> [] \<and> take (length p) (c # s) = p) seqs = None"
    by (simp add: find_None_iff)
  then show ?thesis
    by (subst skip_seqs.simps) simp
qed

lemma skip_seqs_Nil: "skip_seqs seqs [] = []"
proof -
  have "find (\<lambda>p. p \<noteq> [] \<and> take (length p) [] = p) seqs = None"
    by (auto simp: find_None_iff)
  then show ?thesis
    by (subst skip_seqs.simps) simp
qed

lemma ws_leads:
  "hd ` set ws_seqs = set [CHR 0x09, CHR 0x0A, CHR 0x0B, CHR 0x0C, CHR 0x0D, CHR 0x20,
      CHR 0xC2, CHR 0xE1, CHR 0xE2, CHR 0xE3, CHR 0xEF]"
  "hd ` set (map rev ws_seqs) = set [CHR 0x09, CHR 0x0A, CHR 0x0B, CHR 0x0C, CHR 0x0D, CHR 0x20,
      CHR 0xA0, CHR 0x80, CHR 0x81, CHR 0x82, CHR 0x83, CHR 0x84, CHR 0x85, CHR 0x86, CHR 0x87,
      CHR 0x88, CHR 0x89, CHR 0x8A, CHR 0xA8, CHR 0xA9, CHR 0xAF, CHR 0x9F, CHR 0xBF]"
  by (auto simp: ws_seqs_def)

lemma skip_ws_other:
  "c \<notin> set [CHR 0x09, CHR 0x0A, CHR 0x0B, CHR 0x0C, CHR 0x0D, CHR 0x20,
      CHR 0xC2, CHR 0xE1, CHR 0xE2, CHR 0xE3, CHR 0xEF] \<Longrightarrow> skip_ws (c # s) = c # s"
  unfolding skip_ws_def by (rule skip_seqs_other) (unfold ws_leads, assumption)

lemma skip_trailing_other:
  "c \<notin> set [CHR 0x09, CHR 0x0A, CHR 0x0B, CHR 0x0C, CHR 0x0D, CHR 0x20,
      CHR 0xA0, CHR 0x80, CHR 0x81, CHR 0x82, CHR 0x83, CHR 0x84, CHR 0x85, CHR 0x86, CHR 0x87,
      CHR 0x88, CHR 0x89, CHR 0x8A, CHR 0xA8, CHR 0xA9, CHR 0xAF, CHR 0x9F, CHR 0xBF]
   \<Longrightarrow> skip_seqs (map rev ws_seqs) (c # s) = c # s"
  by (rule skip_seqs_other) (unfold ws_leads, assumption)

lemma skip_ws_Nil: "skip_ws [] = []"
  by (simp add: skip_ws_def skip_seqs_Nil)

lemma trim_examples:
  "trim ''2abc'' = ''2abc''" "trim ''5'' = ''5''" "trim ''1'' = ''1''" "trim ''abc'' = ''abc''" "trim [] = []"
  by (simp_all add: trim_def skip_ws_other skip_trailing_other skip_ws_Nil skip_seqs_Nil)

lemma parseInt_examples:
  "parseInt_mathInt ''0'' = Some 0" "parseInt_mathInt ''3'' = Some 3"
  "parseInt_mathInt ''5'' = Some 5" "parseInt_mathInt ''1'' = Some 1"
  "parseInt_mathInt ''2abc'' = Some 2" "parseInt_mathInt ''abc'' = None" "parseInt_mathInt [] = None"
  by (simp_all add: parseInt_mathInt_def skip_ws_other skip_ws_Nil strip_sign_def is_digit_def digit_of_def
        digits_value_def)

lemma skip_ws_nbsp: "skip_ws (CHR 0xC2 # CHR 0xA0 # s) = skip_ws s"
proof -
  have "find (\<lambda>p. p \<noteq> [] \<and> take (length p) (CHR 0xC2 # CHR 0xA0 # s) = p) ws_seqs
      = Some [CHR 0xC2, CHR 0xA0]"
    by (simp add: ws_seqs_def)
  then show ?thesis
    unfolding skip_ws_def by (subst skip_seqs.simps) simp
qed

lemma nbsp_example: "parseInt_mathInt (CHR 0xC2 # CHR 0xA0 # ''3'') = Some 3"
  by (simp add: parseInt_mathInt_def skip_ws_nbsp skip_ws_other strip_sign_def is_digit_def
        digit_of_def digits_value_def)

lemma show_int_examples:
  "show_int 2 = ''2''" "show_int 4 = ''4''" "show_int 1 = ''1''"
  by (simp_all add: show_int_def show_nat.simps)

lemma show_nat_demo: "show_nat 1769155200000 = ''1769155200000''"
  by (simp add: show_nat.simps)

subsection \<open>The writer\<close>

lemma create_cell_spec:
  "create_cell data creator now eventId = spec_create_cell data creator now eventId"
proof
  fix header
  show "create_cell data creator now eventId header = spec_create_cell data creator now eventId header"
    by (cases "create_key (data ''eventType'') header")
       (auto simp: create_cell_def spec_create_cell_def supplied_def Let_def
             dest: create_key_nonempty)
qed

lemma created_cells_ignore_payload:
  "spec_create_cell payload creator now eventId H_eventId = JStr eventId"
  "spec_create_cell payload creator now eventId H_createdTime = JStr now"
  by (simp_all add: spec_create_cell_def header_defs)

lemma writer_invalidate_ok:
  "has_invalidateCache (eventLogReader w) \<Longrightarrow> invalidateCache (eventLogReader w) key = None
   \<Longrightarrow> outcome (writer_invalidate w key) = Inr () \<and> calls (writer_invalidate w key) = [WriterInvalidate key]"
  by (simp add: writer_invalidate_def outcome_simps calls_simps)

lemma writer_create_ok:
  assumes "sheets_append w (getSheetNameByType cfg (data ''eventType''))
             (map (spec_create_cell data creator (now_iso w) (''EVT'' @ show_nat (now_ms w)))
                  (getFieldsByType cfg (data ''eventType''))) = None"
    and "has_invalidateCache (eventLogReader w)"
    and "invalidateCache (eventLogReader w) ''eventLogs'' = None"
  shows "writer_createEventLog cfg w (Some data) creator
     = (Inr \<lparr>success = True, result_id = Some (''EVT'' @ show_nat (now_ms w)), moved = False\<rparr>,
        [SheetsAppend (getSheetNameByType cfg (data ''eventType''))
           (map (spec_create_cell data creator (now_iso w) (''EVT'' @ show_nat (now_ms w)))
                (getFieldsByType cfg (data ''eventType''))),
         WriterInvalidate ''eventLogs''])"
  using assms
  by (subst io_eq)
     (simp add: writer_createEventLog_def Let_def outcome_bind calls_bind outcome_simps calls_simps
        writer_invalidate_ok create_cell_spec)

lemma writer_create_invalidation_throws:
  assumes "sheets_append w (getSheetNameByType cfg (data ''eventType''))
             (map (spec_create_cell data creator (now_iso w) (''EVT'' @ show_nat (now_ms w)))
                  (getFieldsByType cfg (data ''eventType''))) = None"
    and "has_invalidateCache (eventLogReader w)"
    and "invalidateCache (eventLogReader w) ''eventLogs'' = Some e"
  shows "outcome (writer_createEventLog cfg w (Some data) creator) = Inl e"
  using assms
  by (simp add: writer_createEventLog_def Let_def outcome_bind outcome_simps
        writer_invalidate_def create_cell_spec)

lemma pad_row_eq: "pad_row n row = row @ replicate (n - length row) (JStr [])"
proof (induction n row rule: pad_row.induct)
  case (1 n row)
  show ?case
  proof (cases "length row < n")
    case True
    then have "n - length row = Suc (n - Suc (length row))" by simp
    with 1 True show ?thesis
      by (subst pad_row.simps) (simp add: replicate_app_Cons_same)
  next
    case False
    then show ?thesis by (subst pad_row.simps) simp
  qed
qed

lemma length_forEach_header [simp]: "length (forEach_header f hs i row) = length row"
  by (induction hs arbitrary: i row) simp_all

lemma nth_forEach_header:
  "k < length row \<Longrightarrow>
   forEach_header f hs i row ! k
     = (if i \<le> k \<and> k < i + length hs then f (hs ! (k - i)) (row ! k) else row ! k)"
proof (induction hs arbitrary: i row)
  case Nil
  then show ?case by auto
next
  case (Cons h rest)
  let ?row = "row[i := f h (row ! i)]"
  have len: "k < length ?row" using Cons.prems by simp
  show ?case
  proof (cases "k = i")
    case True
    with Cons.prems Cons.IH [OF len, of "Suc i"] show ?thesis by simp
  next
    case False
    with Cons.prems Cons.IH [OF len, of "Suc i"] show ?thesis
      by (auto simp: nth_Cons' Suc_diff_Suc split: if_splits)
  qed
qed

lemma first_row_simps:
  "first_row None = ret []"
  "first_row (Some []) = throw TypeError"
  "first_row (Some (r # rs)) = ret (map JStr r)"
  by (simp_all add: first_row_def)

lemma length_updated_row:
  "length (updated_row rt data now headers row) = max (length row) (length headers)"
  by (simp add: updated_row_def pad_row_eq)

lemma nth_updated_row:
  assumes "i < max (length row) (length headers)"
  shows "updated_row rt data now headers row ! i
     = (if i < length headers
        then update_cell rt data now (headers ! i) (if i < length row then row ! i else JStr [])
        else row ! i)"
proof -
  let ?p = "pad_row (length headers) row"
  have len: "i < length ?p" using assms by (simp add: pad_row_eq)
  have cell: "?p ! i = (if i < length row then row ! i else JStr [])"
    using assms by (auto simp: pad_row_eq nth_append)
  show ?thesis
    unfolding updated_row_def
    using assms nth_forEach_header [OF len, of "update_cell rt data now" headers 0] cell
    by auto
qed

lemma revision_unparsable:
  "parseInt_mathInt s = None \<Longrightarrow> update_cell rt data now H_editCount (JStr s) = JStr ''2''"
  by (simp add: update_cell_def Let_def header_defs safe_integer_def show_int_def show_nat.simps)

lemma revision_parsed:
  assumes "parseInt_mathInt s = Some n" and "\<bar>n\<bar> < 2 ^ 53"
  shows "update_cell rt data now H_editCount (JStr s) = JStr (show_int ((if n = 0 then 1 else n) + 1))"
proof -
  let ?v = "if n = 0 then 1 else n"
  have le: "\<bar>n\<bar> \<le> 2 ^ 53" using assms(2) by simp
  have v: "\<bar>?v\<bar> < 2 ^ 53" using assms(2) by simp
  have parsed: "js_parseInt rt (JStr s) = Fin (of_int n)"
    using assms(1) le by simp
  have cur: "(if truthy (JNum (Fin (of_int n))) then Fin (of_int n) else Fin 1) = Fin (of_int ?v)"
    by simp
  have "\<bar>of_int ?v :: rat\<bar> < 2 ^ 53"
    using v by (metis of_int_abs of_int_less_iff of_int_numeral of_int_power)
  then have plus: "js_plus_one rt (Fin (of_int ?v)) = Fin (of_int (?v + 1))"
    by simp
  have "\<bar>?v + 1\<bar> \<le> 2 ^ 53" using v by linarith
  then have "\<bar>of_int (?v + 1) :: rat\<bar> \<le> 2 ^ 53"
    by (metis of_int_abs of_int_le_iff of_int_numeral of_int_power)
  then have str: "js_String rt (Fin (of_int (?v + 1))) = show_int (?v + 1)"
    by (simp add: safe_integer_def)
  show ?thesis
    unfolding update_cell_def Let_def parsed cur plus str
    by (simp add: header_defs)
qed

lemma invalid_rowIndex_int: "invalid_rowIndex rt (JNum (Fin (of_int n))) \<longleftrightarrow> n \<le> 1"
proof -
  have "((of_int n :: rat) \<le> 1) = (n \<le> 1)"
    using of_int_le_iff [of n 1, where ?'a = rat] by simp
  then show ?thesis
    by (simp add: invalid_rowIndex_def js_le_one_def)
qed

lemma string_MV_examples:
  "string_MV ''2abc'' = NotNumeric" "string_MV ''5'' = Value 5"
  "string_MV ''1'' = Value 1" "string_MV ''abc'' = NotNumeric"
  by (simp_all add: string_MV_def trim_examples
        strip_sign_def is_digit_def digit_of_def digits_value_def parse_decimal_def
        parse_exponent_def all_digits_def Let_def)

lemma guard_examples:
  "\<not> invalid_rowIndex rt (JStr ''2abc'')" "\<not> invalid_rowIndex rt (JStr ''5'')"
  "invalid_rowIndex rt (JStr ''1'')" "invalid_rowIndex rt (JStr ''abc'')" "invalid_rowIndex rt JUndefined"
  by (simp_all add: invalid_rowIndex_def js_le_one_def parseInt_examples string_MV_examples safe_integer_def)

text \<open>
  White space outside ASCII is skipped like a blank: a no-break space (U+00A0) before the
  digits changes neither the guard nor the revision. Beyond \<open>2^53\<close> the revision is
  what the runtime makes of it.
\<close>

lemma trim_nbsp: "trim (CHR 0xC2 # CHR 0xA0 # ''5'') = ''5''"
  by (simp add: trim_def skip_ws_nbsp skip_ws_other skip_trailing_other)

lemma guard_nbsp: "\<not> invalid_rowIndex rt (JStr (CHR 0xC2 # CHR 0xA0 # ''5''))"
proof -
  have "parseInt_mathInt (CHR 0xC2 # CHR 0xA0 # ''5'') = Some 5"
    by (simp add: parseInt_mathInt_def skip_ws_nbsp skip_ws_other strip_sign_def is_digit_def
          digit_of_def digits_value_def)
  moreover have "string_MV (CHR 0xC2 # CHR 0xA0 # ''5'') = Value 5"
    by (simp add: string_MV_def trim_nbsp strip_sign_def is_digit_def digit_of_def digits_value_def
          parse_decimal_def parse_exponent_def all_digits_def Let_def)
  ultimately show ?thesis
    by (simp add: invalid_rowIndex_def js_le_one_def safe_integer_def)
qed

lemma revision_after_nbsp:
  "update_cell rt data now H_editCount (JStr (CHR 0xC2 # CHR 0xA0 # ''3'')) = JStr ''4''"
  using revision_parsed [of "CHR 0xC2 # CHR 0xA0 # ''3''" 3 rt data now]
  by (simp add: nbsp_example show_int_examples)

lemma revision_beyond_safe:
  "update_cell rt data now H_editCount (JStr ''9007199254740993'')
     = (let parsed = Num (parseInt_inexact rt ''9007199254740993'')
        in JStr (js_String rt (js_plus_one rt (if parsed = Fin 0 then Fin 1 else parsed))))"
proof -
  have "parseInt_mathInt ''9007199254740993'' = Some 9007199254740993"
    by (simp add: parseInt_mathInt_def skip_ws_other strip_sign_def is_digit_def digit_of_def
          digits_value_def)
  then show ?thesis
    by (simp add: update_cell_def Let_def header_defs)
qed

lemma writer_update_invalid:
  "invalid_rowIndex (js w) rowIndex \<Longrightarrow>
   writer_updateEventLog cfg w rowIndex data_opt modifier = throw InvalidArgument"
  by (simp add: writer_updateEventLog_def)

lemma writer_update_read_failed:
  "\<not> invalid_rowIndex (js w) rowIndex \<Longrightarrow> sheets_get w (row_range cfg data rowIndex) = Inl e \<Longrightarrow>
   outcome (writer_updateEventLog cfg w rowIndex (Some data) modifier) = Inl e
   \<and> calls (writer_updateEventLog cfg w rowIndex (Some data) modifier) = [SheetsGet (row_range cfg data rowIndex)]"
  by (simp add: writer_updateEventLog_def Let_def outcome_bind calls_bind outcome_simps calls_simps)

lemma writer_update_missing:
  "\<not> invalid_rowIndex (js w) rowIndex \<Longrightarrow>
   sheets_get w (row_range cfg data rowIndex) = Inr None
   \<or> sheets_get w (row_range cfg data rowIndex) = Inr (Some ([] # rs)) \<Longrightarrow>
   outcome (writer_updateEventLog cfg w rowIndex (Some data) modifier) = Inl NotFound
   \<and> calls (writer_updateEventLog cfg w rowIndex (Some data) modifier) = [SheetsGet (row_range cfg data rowIndex)]"
  by (auto simp: writer_updateEventLog_def Let_def outcome_bind calls_bind outcome_simps calls_simps first_row_simps)

lemma writer_update_no_rows:
  "\<not> invalid_rowIndex (js w) rowIndex \<Longrightarrow>
   sheets_get w (row_range cfg data rowIndex) = Inr (Some []) \<Longrightarrow>
   outcome (writer_updateEventLog cfg w rowIndex (Some data) modifier) = Inl TypeError
   \<and> calls (writer_updateEventLog cfg w rowIndex (Some data) modifier) = [SheetsGet (row_range cfg data rowIndex)]"
  by (auto simp: writer_updateEventLog_def Let_def outcome_bind calls_bind outcome_simps calls_simps first_row_simps)

lemma writer_update_found:
  assumes "\<not> invalid_rowIndex (js w) rowIndex"
    and "sheets_get w (row_range cfg data rowIndex) = Inr (Some (r # rs))"
    and "r \<noteq> []"
  shows "calls (writer_updateEventLog cfg w rowIndex (Some data) modifier)
     = SheetsGet (row_range cfg data rowIndex)
       # SheetsUpdate (row_range cfg data rowIndex)
           (updated_row (js w) data (now_iso w) (getFieldsByType cfg (data ''eventType'')) (map JStr r))
       # (case sheets_update w (row_range cfg data rowIndex)
                 (updated_row (js w) data (now_iso w) (getFieldsByType cfg (data ''eventType'')) (map JStr r)) of
            Some e \<Rightarrow> []
          | None \<Rightarrow> calls (writer_invalidate w ''eventLogs''))"
    and "outcome (writer_updateEventLog cfg w rowIndex (Some data) modifier)
     = (case sheets_update w (row_range cfg data rowIndex)
                 (updated_row (js w) data (now_iso w) (getFieldsByType cfg (data ''eventType'')) (map JStr r)) of
          Some e \<Rightarrow> Inl e
        | None \<Rightarrow> (case outcome (writer_invalidate w ''eventLogs'') of
                      Inl e \<Rightarrow> Inl e
                    | Inr u \<Rightarrow> Inr \<lparr>success = True, result_id = None, moved = False\<rparr>))"
  using assms
  by (auto simp: writer_updateEventLog_def Let_def outcome_bind calls_bind outcome_simps calls_simps
        first_row_simps split: option.splits sum.splits)

lemma writer_update_writes_iff:
  "(\<exists>rg row. SheetsUpdate rg row \<in> set (calls (writer_updateEventLog cfg w rowIndex (Some data) modifier)))
   \<longleftrightarrow> \<not> invalid_rowIndex (js w) rowIndex
       \<and> (\<exists>r rs. r \<noteq> [] \<and> sheets_get w (row_range cfg data rowIndex) = Inr (Some (r # rs)))"
  (is "?writes \<longleftrightarrow> ?ok")
proof (cases "invalid_rowIndex (js w) rowIndex")
  case True
  then show ?thesis
    by (simp add: writer_update_invalid calls_simps)
next
  case valid: False
  show ?thesis
  proof (cases "sheets_get w (row_range cfg data rowIndex)")
    case (Inl e)
    with valid show ?thesis
      by (simp add: writer_update_read_failed)
  next
    case (Inr got)
    show ?thesis
    proof (cases got)
      case None
      with valid Inr show ?thesis
        by (simp add: writer_update_missing)
    next
      case (Some rows)
      show ?thesis
      proof (cases rows)
        case Nil
        with valid Inr Some show ?thesis
          by (simp add: writer_update_no_rows)
      next
        case (Cons r rs)
        show ?thesis
        proof (cases "r = []")
          case True
          with valid Inr Some Cons show ?thesis
            by (simp add: writer_update_missing)
        next
          case False
          with valid Inr Some Cons
          have get: "sheets_get w (row_range cfg data rowIndex) = Inr (Some (r # rs))"
            by simp
          from writer_update_found(1) [OF valid get False, of modifier]
          have ?writes by auto
          with valid get False show ?thesis by auto
        qed
      qed
    qed
  qed
qed

lemma create_key_spec: "create_key t h = spec_key t h"
  by (simp add: create_key_def spec_key_def)

lemma update_key_spec: "update_key t h = spec_key t h"
  by (simp add: update_key_def spec_key_def)

lemma create_cell_payload:
  assumes "label \<notin> set [H_eventId, H_creator, H_createdTime, H_lastModifiedTime, H_editCount]"
  shows "create_cell data creator now eventId label
     = (case payload_value data (spec_key (data ''eventType'') label) of
          None \<Rightarrow> JStr [] | Some v \<Rightarrow> v)"
  using assms
  by (simp add: create_cell_spec spec_create_cell_def create_key_spec payload_value_def
        split: option.splits)

lemma update_cell_payload:
  assumes "label \<notin> set [H_lastModifiedTime, H_editCount]"
  shows "update_cell rt data now label old
     = (case payload_value data (spec_key (data ''eventType'') label) of
          None \<Rightarrow> old | Some v \<Rightarrow> v)"
  using assms create_key_nonempty [of "data ''eventType''" label]
  by (auto simp: update_cell_def Let_def supplied_def update_key_eq payload_value_def
        create_key_spec [symmetric] split: option.splits)

lemma writer_create_calls:
  "calls (writer_createEventLog cfg w (Some data) creator)
     = SheetsAppend (getSheetNameByType cfg (data ''eventType''))
         (map (create_cell data creator (now_iso w) (''EVT'' @ show_nat (now_ms w)))
              (getFieldsByType cfg (data ''eventType'')))
       # (case sheets_append w (getSheetNameByType cfg (data ''eventType''))
                 (map (create_cell data creator (now_iso w) (''EVT'' @ show_nat (now_ms w)))
                      (getFieldsByType cfg (data ''eventType''))) of
            Some e \<Rightarrow> []
          | None \<Rightarrow> calls (writer_invalidate w ''eventLogs''))"
  by (simp add: writer_createEventLog_def Let_def calls_bind calls_simps outcome_simps
        split: option.splits sum.splits)

lemma valid_three: "\<not> invalid_rowIndex rt (JNum (Fin 3))"
  by (simp add: invalid_rowIndex_def js_le_one_def)

lemma demo_range:
  "row_range demo_config demo_update (JNum (Fin 3))
     = Range ''EventLogs_General'' (JNum (Fin 3)) CHR ''F''"
  by (simp add: row_range_def demo_config_def demo_update_def empty_obj_def
        getSheetNameByType_def getFieldsByType_def column_letters)

lemmas demo_eval =
  demo_config_def demo_world_def demo_update_def demo_row_def good_reader_def empty_obj_def
  getSheetNameByType_def getFieldsByType_def update_key_def create_key_def supplied_def
  HEADER_TO_KEY_MAP_def header_defs

subsection \<open>The service\<close>

lemma invalidateEventCacheSafe_outcome:
  "outcome (invalidateEventCacheSafe w) = Inr ()"
  by (auto simp: invalidateEventCacheSafe_def outcome_try_catch outcome_simps split: sum.splits option.splits)

lemma service_create_invalidation_throws:
  assumes "sheets_append w (getSheetNameByType cfg (data ''eventType''))
             (map (spec_create_cell data (modifier_of user) (now_iso w) (''EVT'' @ show_nat (now_ms w)))
                  (getFieldsByType cfg (data ''eventType''))) = None"
    and "has_invalidateCache (eventLogReader w)"
    and "invalidateCache (eventLogReader w) ''eventLogs'' = Some e"
  shows "outcome (service_createEvent cfg w (Some data) user) = Inl e"
  using writer_create_invalidation_throws [OF assms]
  by (simp add: service_createEvent_def Let_def outcome_bind)

lemma find_holds: "find P xs = Some x \<Longrightarrow> P x \<and> x \<in> set xs"
  by (induction xs) (auto split: if_splits)

lemma resolve_original_by_id:
  "truthy inputEventId \<Longrightarrow> find (\<lambda>l. strict_eq (l ''eventId'') inputEventId) logs = Some l
   \<Longrightarrow> resolve_original rt logs inputEventId idOrRowIndex = Some l"
  by (simp add: resolve_original_def)

lemma resolve_original_fallback:
  assumes "\<not> truthy inputEventId \<or> find (\<lambda>l. strict_eq (l ''eventId'') inputEventId) logs = None"
  shows "resolve_original rt logs inputEventId idOrRowIndex
     = (if isInteger (js_Number rt idOrRowIndex)
        then find (\<lambda>l. strict_eq (JNum (js_Number rt (l ''rowIndex''))) (JNum (js_Number rt idOrRowIndex))) logs
        else None)"
  using assms by (auto simp: resolve_original_def Let_def)

lemma resolve_rowIndex_calls: "calls (resolve_rowIndex rt logs idOrRowIndex) = []"
  by (auto simp: resolve_rowIndex_def calls_bind calls_simps split: sum.splits jsval.splits option.splits)

lemma move_payload_eventType: "move_payload orig data ''eventType'' = data ''eventType''"
  by (simp add: move_payload_def Let_def)

lemma move_protocol:
  assumes "getEventLogs w = Inr logs"
    and "resolve_original (js w) logs (inputEventId_of (Some data)) idOrRowIndex = Some orig"
    and "outcome (resolve_rowIndex (js w) logs idOrRowIndex) = Inr n"
    and "type_changed (Some orig) (Some data)"
    and "base_deleteRow w (getSheetNameByType cfg (orig ''eventType'')) (orig ''rowIndex'') = None"
    and "sheets_append w (getSheetNameByType cfg (data ''eventType''))
           (map (spec_create_cell (move_payload orig data) modifier (now_iso w)
                   (''EVT'' @ show_nat (now_ms w)))
                (getFieldsByType cfg (data ''eventType''))) = None"
    and "has_invalidateCache (eventLogReader w)"
    and "invalidateCache (eventLogReader w) ''eventLogs'' = None"
  shows "outcome (service_updateEventLog cfg w idOrRowIndex (Some data) modifier)
     = Inr \<lparr>success = True, result_id = Some (''EVT'' @ show_nat (now_ms w)), moved = True\<rparr>"
    and "calls (service_updateEventLog cfg w idOrRowIndex (Some data) modifier)
     = [GetEventLogs,
        DeleteRow (getSheetNameByType cfg (orig ''eventType'')) (orig ''rowIndex''),
        SheetsAppend (getSheetNameByType cfg (data ''eventType''))
          (map (spec_create_cell (move_payload orig data) modifier (now_iso w)
                  (''EVT'' @ show_nat (now_ms w)))
               (getFieldsByType cfg (data ''eventType''))),
        WriterInvalidate ''eventLogs'']
       @ calls (invalidateEventCacheSafe w)"
proof -
  have row: "resolve_rowIndex (js w) logs idOrRowIndex = (Inr n, [])"
    using assms(3) resolve_rowIndex_calls [of "js w" logs idOrRowIndex]
    by (subst io_eq) simp
  have del: "writer_deleteEventLog cfg w (orig ''rowIndex'') (orig ''eventType'')
      = (Inr \<lparr>success = True, result_id = None, moved = False\<rparr>,
         [DeleteRow (getSheetNameByType cfg (orig ''eventType'')) (orig ''rowIndex'')])"
    using assms(5) by (simp add: writer_deleteEventLog_def Let_def bind_def invoke_def ret_def)
  have cre: "writer_createEventLog cfg w (Some (move_payload orig data)) modifier
     = (Inr \<lparr>success = True, result_id = Some (''EVT'' @ show_nat (now_ms w)), moved = False\<rparr>,
        [SheetsAppend (getSheetNameByType cfg (data ''eventType''))
           (map (spec_create_cell (move_payload orig data) modifier (now_iso w)
                   (''EVT'' @ show_nat (now_ms w)))
                (getFieldsByType cfg (data ''eventType''))),
         WriterInvalidate ''eventLogs''])"
    using writer_create_ok [of w cfg "move_payload orig data" modifier] assms(6,7,8)
    by (simp add: move_payload_eventType)
  have inv: "invalidateEventCacheSafe w = (Inr (), calls (invalidateEventCacheSafe w))"
    using invalidateEventCacheSafe_outcome [of w] by (subst io_eq) simp
  have run: "service_updateEventLog cfg w idOrRowIndex (Some data) modifier
     = (Inr \<lparr>success = True, result_id = Some (''EVT'' @ show_nat (now_ms w)), moved = True\<rparr>,
        [GetEventLogs,
         DeleteRow (getSheetNameByType cfg (orig ''eventType'')) (orig ''rowIndex''),
         SheetsAppend (getSheetNameByType cfg (data ''eventType''))
           (map (spec_create_cell (move_payload orig data) modifier (now_iso w)
                   (''EVT'' @ show_nat (now_ms w)))
                (getFieldsByType cfg (data ''eventType''))),
         WriterInvalidate ''eventLogs'']
        @ calls (invalidateEventCacheSafe w))"
    unfolding service_updateEventLog_def Let_def
    by (subst inv) (simp add: assms(1,2,4) row del cre bind_def fetch_def ret_def)
  show "outcome (service_updateEventLog cfg w idOrRowIndex (Some data) modifier)
     = Inr \<lparr>success = True, result_id = Some (''EVT'' @ show_nat (now_ms w)), moved = True\<rparr>"
    by (simp add: run outcome_def)
  show "calls (service_updateEventLog cfg w idOrRowIndex (Some data) modifier)
     = [GetEventLogs,
        DeleteRow (getSheetNameByType cfg (orig ''eventType'')) (orig ''rowIndex''),
        SheetsAppend (getSheetNameByType cfg (data ''eventType''))
          (map (spec_create_cell (move_payload orig data) modifier (now_iso w)
                  (''EVT'' @ show_nat (now_ms w)))
               (getFieldsByType cfg (data ''eventType''))),
        WriterInvalidate ''eventLogs'']
       @ calls (invalidateEventCacheSafe w)"
    by (simp add: run calls_def)
qed









lemma demo_resolve:
  "resolve_original rt [demo_log] (inputEventId_of (Some demo_move)) (JNum (Fin 3)) = Some demo_log"
  by (simp add: resolve_original_def inputEventId_of_def opt_prop_def js_or_def demo_move_def
        demo_log_def empty_obj_def strict_eq_def)

lemma demo_rowIndex:
  "resolve_rowIndex rt [demo_log] (JNum (Fin 3)) = ret (Fin 3)"
  by (simp add: resolve_rowIndex_def bind_def ret_def)

lemma demo_type_changed: "type_changed (Some demo_log) (Some demo_move)"
  by (simp add: type_changed_def demo_log_def demo_move_def empty_obj_def strict_eq_def)

lemma demo_move_payload:
  "move_payload demo_log demo_move =
     (\<lambda>k. if k = ''eventId'' \<or> k = ''id'' then JStr ''EVT1700000000000''
          else if k = ''createdTime'' then JStr ''2026-01-01T00:00:00.000Z''
          else if k = ''eventType'' then JStr ''iot''
          else if k = ''eventName'' then JStr ''Visit 2''
          else JUndefined)"
  by (rule ext) (simp add: move_payload_def demo_log_def demo_move_def empty_obj_def Let_def)

lemma demo_move_row:
  "map (spec_create_cell (move_payload demo_log demo_move) (JStr ''Bob'') ''2026-01-23T08:00:00.000Z''
          ''EVT1769155200000'')
       (getFieldsByType demo_config (JStr ''iot''))
   = [JStr ''EVT1769155200000'', JStr ''Visit 2'', JStr ''Bob'',
      JStr ''2026-01-23T08:00:00.000Z'', JStr ''2026-01-23T08:00:00.000Z'', JStr ''1'', JStr []]"
  by (simp add: demo_move_payload demo_config_def getFieldsByType_def
        spec_create_cell_def create_key_def HEADER_TO_KEY_MAP_def header_defs)

lemma demo_move_run:
  "service_updateEventLog demo_config demo_world (JNum (Fin 3)) (Some demo_move) (JStr ''Bob'')
      = (Inr \<lparr>success = True, result_id = Some ''EVT1769155200000'', moved = True\<rparr>,
         [GetEventLogs,
          DeleteRow ''EventLogs_General'' (JNum (Fin 3)),
          SheetsAppend ''EventLogs_IOT''
            [JStr ''EVT1769155200000'', JStr ''Visit 2'', JStr ''Bob'',
             JStr ''2026-01-23T08:00:00.000Z'', JStr ''2026-01-23T08:00:00.000Z'', JStr ''1'', JStr []],
          WriterInvalidate ''eventLogs'',
          ServiceInvalidate ''eventLogs''])"
proof -
  have w: "getEventLogs demo_world = Inr [demo_log]" "now_iso demo_world = ''2026-01-23T08:00:00.000Z''"
    "now_ms demo_world = 1769155200000" "base_deleteRow demo_world s r = None"
    "sheets_append demo_world s row = None" "eventLogReader demo_world = good_reader"
    "eventReader demo_world = good_reader" for s r row
    by (simp_all add: demo_world_def)
  have t: "move_payload demo_log demo_move ''eventType'' = JStr ''iot''"
    by (simp add: demo_move_payload)
  have o: "demo_log ''rowIndex'' = JNum (Fin 3)" "demo_log ''eventType'' = JStr ''general''"
    "demo_log ''eventId'' = JStr ''EVT1700000000000''"
    by (simp_all add: demo_log_def empty_obj_def)
  have s: "getSheetNameByType demo_config (JStr ''general'') = ''EventLogs_General''"
    "getSheetNameByType demo_config (JStr ''iot'') = ''EventLogs_IOT''"
    by (simp_all add: getSheetNameByType_def demo_config_def)
  have del: "writer_deleteEventLog demo_config demo_world (JNum (Fin 3)) (JStr ''general'')
      = (Inr \<lparr>success = True, result_id = None, moved = False\<rparr>, [DeleteRow ''EventLogs_General'' (JNum (Fin 3))])"
    by (simp add: writer_deleteEventLog_def w s bind_def invoke_def ret_def)
  have cre: "writer_createEventLog demo_config demo_world (Some (move_payload demo_log demo_move)) (JStr ''Bob'')
      = (Inr \<lparr>success = True, result_id = Some ''EVT1769155200000'', moved = False\<rparr>,
         [SheetsAppend ''EventLogs_IOT''
            [JStr ''EVT1769155200000'', JStr ''Visit 2'', JStr ''Bob'',
             JStr ''2026-01-23T08:00:00.000Z'', JStr ''2026-01-23T08:00:00.000Z'', JStr ''1'', JStr []],
          WriterInvalidate ''eventLogs''])"
    using demo_move_row
    by (simp add: writer_createEventLog_def Let_def create_cell_spec w s t show_nat_demo
          writer_invalidate_def good_reader_def bind_def invoke_def ret_def)
  have inv: "invalidateEventCacheSafe demo_world = (Inr (), [ServiceInvalidate ''eventLogs''])"
    by (simp add: invalidateEventCacheSafe_def w good_reader_def try_catch_def invoke_def)
  show "service_updateEventLog demo_config demo_world (JNum (Fin 3)) (Some demo_move) (JStr ''Bob'')
      = (Inr \<lparr>success = True, result_id = Some ''EVT1769155200000'', moved = True\<rparr>,
         [GetEventLogs,
          DeleteRow ''EventLogs_General'' (JNum (Fin 3)),
          SheetsAppend ''EventLogs_IOT''
            [JStr ''EVT1769155200000'', JStr ''Visit 2'', JStr ''Bob'',
             JStr ''2026-01-23T08:00:00.000Z'', JStr ''2026-01-23T08:00:00.000Z'', JStr ''1'', JStr []],
          WriterInvalidate ''eventLogs'',
          ServiceInvalidate ''eventLogs''])"
    by (simp add: service_updateEventLog_def w o demo_resolve demo_rowIndex demo_type_changed
          del cre inv bind_def fetch_def ret_def)
qed

subsection \<open>The join\<close>

lemma name_map_display:
  "js_or (name_map idKey nameKey xs ident) ident = display_name idKey nameKey xs ident"
  by (simp add: name_map_def display_name_def js_or_def split: option.splits)

lemma enrich_eq:
  "with_names (name_map ''opportunityId'' ''opportunityName'' opps)
              (name_map ''companyId'' ''companyName'' comps) (with_id_alias raw)
   = enriched opps comps raw"
  by (rule ext)
     (simp add: with_names_def with_id_alias_def enriched_def Let_def name_map_display)

lemma upt_cons: "n # [Suc n ..< Suc (n + k)] = [n ..< n + Suc k]"
  by (simp add: upt_conv_Cons del: upt_Suc)

lemma map_events_eq:
  "\<forall>a \<in> set events. a < length h \<Longrightarrow>
   map_events f events h
     = ([length h ..< length h + length events], h @ map (\<lambda>a. f (h ! a)) events)"
proof (induction events arbitrary: h)
  case Nil
  then show ?case by simp
next
  case (Cons raw rest)
  let ?h1 = "h @ [f (h ! raw)]"
  have valid: "\<forall>a \<in> set rest. a < length ?h1"
    using Cons.prems by auto
  have same: "map (\<lambda>a. f (?h1 ! a)) rest = map (\<lambda>a. f (h ! a)) rest"
    using Cons.prems by (auto simp: nth_append)
  have "map_events f (raw # rest) h
      = (length h # [Suc (length h) ..< Suc (length h + length rest)],
         ?h1 @ map (\<lambda>a. f (h ! a)) rest)"
    using Cons.IH [OF valid] same by (simp add: alloc_def del: upt_Suc)
  then show ?case
    by (simp only: upt_cons) simp
qed

lemma getAllEvents_ok:
  "\<forall>a \<in> set events. a < length h \<Longrightarrow>
   service_getAllEvents h (Inr events) (Inr opps) (Inr comps)
     = (Inr [length h ..< length h + length events],
        h @ map (\<lambda>a. enriched opps comps (h ! a)) events)"
  by (simp add: service_getAllEvents_def getAllEvents_try_def map_events_eq enrich_eq del: upt_Suc)

lemma getAllEvents_failed:
  "(\<exists>e. events_r = Inl e) \<or> (\<exists>e. opps_r = Inl e) \<or> (\<exists>e. comps_r = Inl e) \<Longrightarrow>
   service_getAllEvents h events_r opps_r comps_r = (Inr [], h)"
  by (auto simp: service_getAllEvents_def getAllEvents_try_def split: sum.splits)

lemma getAllEvents_never_fails:
  "\<exists>v. fst (service_getAllEvents h events_r opps_r comps_r) = Inr v"
  by (auto simp: service_getAllEvents_def split: sum.splits prod.splits)

lemma getEventById_ok:
  "rawEvent < length h \<Longrightarrow>
   service_getEventById h (Inr (Some rawEvent)) (Inr opps) (Inr comps)
     = (Inr (JObj (length h)), h @ [enriched opps comps (h ! rawEvent)])"
  by (simp add: service_getEventById_def getEventById_try_def getEventById_join_def alloc_def
        enrich_eq [symmetric] with_names_def Let_def)

lemma getEventById_join_failed:
  "(\<exists>e. opps_r = Inl e) \<or> (\<exists>e. comps_r = Inl e) \<Longrightarrow>
   service_getEventById h (Inr (Some rawEvent)) opps_r comps_r
     = (Inr (JObj (length h)), h @ [with_id_alias (h ! rawEvent)])"
  by (auto simp: service_getEventById_def getEventById_try_def getEventById_join_def alloc_def
        split: sum.splits)

lemma getEventById_never_fails:
  "\<exists>v. fst (service_getEventById h rawEvent_r opps_r comps_r) = Inr v"
  by (auto simp: service_getEventById_def split: sum.splits prod.splits)

lemma demo_enriched:
  "enriched [demo_opp] [demo_comp] demo_event ''opportunityName'' = JStr ''Retrofit''"
  "enriched [demo_opp] [demo_comp] demo_event ''companyName'' = JStr ''Acme''"
  "enriched [demo_opp] [demo_comp] demo_event ''id'' = JStr ''EVT1700000000000''"
  "enriched [demo_opp_unnamed] [] demo_event ''opportunityName'' = JStr ''OPP1''"
  "enriched [demo_opp_unnamed] [] demo_event ''companyName'' = JStr ''COM1''"
  by (simp_all add: enriched_def display_name_def demo_event_def demo_opp_def demo_comp_def
        demo_opp_unnamed_def empty_obj_def)

lemma demo_event_fields:
  "demo_event ''opportunityName'' = JUndefined" "demo_event ''companyName'' = JUndefined"
  "demo_event ''id'' = JUndefined" "demo_event ''opportunityId'' = JStr ''OPP1''"
  "demo_event ''eventId'' = JStr ''EVT1700000000000''"
  by (simp_all add: demo_event_def empty_obj_def)

section \<open>Move on a change of event type\<close>

text \<open>
  Claim C1 says that an update which changes the event type of a record resolved by
  identity deletes the row in the original type's sheet at the original row index,
  creates a row in the new type's sheet, and stores and returns the original event id.
  The general shape of a move is \<open>move_protocol\<close> above: the delete and the append
  are as the claim says, and the id is the one the writer generates. At a concrete move:
  the cached record \<open>demo_log\<close> has type \<^verbatim>\<open>general\<close>, row 3 and the id
  \<^verbatim>\<open>EVT1700000000000\<close>; the update names it by that id and asks for type
  \<^verbatim>\<open>iot\<close>. The service deletes row 3 of the general sheet and appends to the IOT
  sheet with the id pinned in the payload, but the writer's create never reads the
  payload's id: the identity column of the new row and the id returned are the freshly
  generated \<^verbatim>\<open>EVT1769155200000\<close>, not the original id.
\<close>

theorem move_regenerates_id:
  "demo_log ''eventId'' = JStr ''EVT1700000000000''
   \<and> outcome (service_updateEventLog demo_config demo_world (JNum (Fin 3)) (Some demo_move) (JStr ''Bob''))
       = Inr \<lparr>success = True, result_id = Some ''EVT1769155200000'', moved = True\<rparr>
   \<and> calls (service_updateEventLog demo_config demo_world (JNum (Fin 3)) (Some demo_move) (JStr ''Bob''))
       = [GetEventLogs,
          DeleteRow ''EventLogs_General'' (JNum (Fin 3)),
          SheetsAppend ''EventLogs_IOT''
            [JStr ''EVT1769155200000'', JStr ''Visit 2'', JStr ''Bob'',
             JStr ''2026-01-23T08:00:00.000Z'', JStr ''2026-01-23T08:00:00.000Z'', JStr ''1'', JStr []],
          WriterInvalidate ''eventLogs'',
          ServiceInvalidate ''eventLogs'']"
  by (simp add: demo_move_run outcome_def calls_def) (simp add: demo_log_def empty_obj_def)

text \<open>
  Claim C2 says that a move whose caller supplies no creation time stores the original
  record's creation time in the new row. At the same move as above: the caller supplies
  none and the service copies the original one into the payload, but the writer's create
  fills the created-time column (column 3 of the schema) with the current time for every
  payload (\<open>created_cells_ignore_payload\<close>): the new row holds
  \<^verbatim>\<open>2026-01-23T08:00:00.000Z\<close>, not the original
  \<^verbatim>\<open>2026-01-01T00:00:00.000Z\<close>.
\<close>

theorem move_resets_created_time:
  "demo_move ''createdTime'' = JUndefined
   \<and> demo_log ''createdTime'' = JStr ''2026-01-01T00:00:00.000Z''
   \<and> move_payload demo_log demo_move ''createdTime'' = JStr ''2026-01-01T00:00:00.000Z''
   \<and> getFieldsByType demo_config (JStr ''iot'') ! 3 = H_createdTime
   \<and> calls (service_updateEventLog demo_config demo_world (JNum (Fin 3)) (Some demo_move) (JStr ''Bob'')) ! 2
       = SheetsAppend ''EventLogs_IOT''
            [JStr ''EVT1769155200000'', JStr ''Visit 2'', JStr ''Bob'',
             JStr ''2026-01-23T08:00:00.000Z'', JStr ''2026-01-23T08:00:00.000Z'', JStr ''1'', JStr []]
   \<and> now_iso demo_world = ''2026-01-23T08:00:00.000Z''"
  by (simp add: demo_move_run calls_def demo_move_payload)
     (simp add: demo_log_def demo_move_def empty_obj_def demo_config_def getFieldsByType_def demo_world_def)

section \<open>Update in place\<close>

text \<open>
  Claim C3, as stated, fails when the stored revision is "0": the cell parses (to 0), so
  the claim gives revision "1", while \<^verbatim>\<open>parseInt(cell) || 1\<close> takes the
  falsy 0 for the default and the row written back holds "2".
\<close>

theorem revision_zero_counterexample:
  "parseInt_mathInt ''0'' = Some 0
   \<and> show_int (0 + 1) = ''1''
   \<and> calls (writer_updateEventLog demo_config demo_world_rev0 (JNum (Fin 3)) (Some demo_update) (JStr ''Bob''))
     = [SheetsGet (Range ''EventLogs_General'' (JNum (Fin 3)) CHR ''F''),
        SheetsUpdate (Range ''EventLogs_General'' (JNum (Fin 3)) CHR ''F'')
          [JStr ''EVT1700000000000'', JStr ''Visit 2'', JStr ''Amy'',
           JStr ''2026-01-01T00:00:00.000Z'', JStr ''2026-01-23T08:00:00.000Z'', JStr ''2''],
        WriterInvalidate ''eventLogs'']"
proof -
  have get: "sheets_get demo_world_rev0 (row_range demo_config demo_update (JNum (Fin 3)))
      = Inr (Some ([''EVT1700000000000'', ''Visit'', ''Amy'', ''2026-01-01T00:00:00.000Z'',
         ''2026-01-01T00:00:00.000Z'', ''0''] # []))"
    by (simp add: demo_world_rev0_def)
  have rev: "update_cell rt demo_update now H_editCount (JStr ''0'') = JStr ''2''" for rt now
    using revision_parsed [of "''0''" 0 rt demo_update now]
    by (simp add: parseInt_examples show_int_examples)
  have row: "updated_row rt demo_update ''2026-01-23T08:00:00.000Z''
       (getFieldsByType demo_config (demo_update ''eventType''))
       [JStr ''EVT1700000000000'', JStr ''Visit'', JStr ''Amy'', JStr ''2026-01-01T00:00:00.000Z'',
         JStr ''2026-01-01T00:00:00.000Z'', JStr ''0'']
     = [JStr ''EVT1700000000000'', JStr ''Visit 2'', JStr ''Amy'',
           JStr ''2026-01-01T00:00:00.000Z'', JStr ''2026-01-23T08:00:00.000Z'', JStr ''2'']" for rt
    using rev [of rt "''2026-01-23T08:00:00.000Z''"]
    by (simp add: updated_row_def pad_row_eq demo_config_def demo_update_def empty_obj_def
          getFieldsByType_def)
       (simp add: update_cell_def update_key_def supplied_def HEADER_TO_KEY_MAP_def header_defs)
  have now: "now_iso demo_world_rev0 = ''2026-01-23T08:00:00.000Z''"
    by (simp add: demo_world_rev0_def demo_world_def)
  have inv: "calls (writer_invalidate demo_world_rev0 ''eventLogs'') = [WriterInvalidate ''eventLogs'']"
    by (simp add: writer_invalidate_def demo_world_rev0_def demo_world_def good_reader_def calls_simps)
  have upd: "sheets_update demo_world_rev0 rg rw = None" for rg rw
    by (simp add: demo_world_rev0_def demo_world_def)
  show ?thesis
    using writer_update_found(1) [OF valid_three get, of "JStr ''Bob''"]
    by (simp add: row now inv upd demo_range parseInt_examples show_int_examples)
qed

text \<open>
  Claim C3, amended. In a successful update in place (the row index passes the guard and
  the read returns a non-empty row), the row written back has the width of the schema or
  of the row read, whichever is larger, short rows being padded with empty strings first.
  In it the modified-timestamp column is the current time; the revision column is "2"
  when the cell read has no leading integer, and otherwise, for a leading integer \<open>n\<close>
  below \<open>2^53\<close> in magnitude, the decimal digits of \<open>n + 1\<close>, with 1 taken for
  \<open>n\<close> when it is 0 (beyond \<open>2^53\<close> the sum is rounded to a double, and nothing is
  stated); every other schema column whose resolved key is absent from the payload keeps
  the value it had, and a column whose key is supplied takes the payload's value; cells
  beyond the schema are kept. The call returns success when the write and the
  invalidation go through. All of this holds whatever the runtime answers where doubles
  round.
\<close>

theorem update_partial_payload:
  assumes "\<not> invalid_rowIndex (js w) rowIndex"
    and "sheets_get w (row_range cfg data rowIndex) = Inr (Some (r # rs))"
    and "r \<noteq> []"
  shows "\<exists>newRow rest.
      calls (writer_updateEventLog cfg w rowIndex (Some data) modifier)
        = SheetsGet (row_range cfg data rowIndex)
          # SheetsUpdate (row_range cfg data rowIndex) newRow # rest
    \<and> length newRow = max (length r) (length (getFieldsByType cfg (data ''eventType'')))
    \<and> (\<forall>i < length newRow.
         let old = (if i < length r then r ! i else []);
             header = getFieldsByType cfg (data ''eventType'') ! i
         in if length (getFieldsByType cfg (data ''eventType'')) \<le> i then newRow ! i = JStr old
            else if header = H_lastModifiedTime then newRow ! i = JStr (now_iso w)
            else if header = H_editCount then
              (case parseInt_mathInt old of
                 None \<Rightarrow> newRow ! i = JStr ''2''
               | Some n \<Rightarrow>
                   \<bar>n\<bar> < 2 ^ 53 \<longrightarrow>
                   newRow ! i = JStr (show_int ((if n = 0 then 1 else n) + 1)))
            else newRow ! i =
                   (case update_key (data ''eventType'') header of
                      None \<Rightarrow> JStr old
                    | Some key \<Rightarrow> if data key = JUndefined then JStr old else data key))
    \<and> (sheets_update w (row_range cfg data rowIndex) newRow = None
        \<and> has_invalidateCache (eventLogReader w)
        \<and> invalidateCache (eventLogReader w) ''eventLogs'' = None
       \<longrightarrow> outcome (writer_updateEventLog cfg w rowIndex (Some data) modifier)
             = Inr \<lparr>success = True, result_id = None, moved = False\<rparr>)"
proof -
  let ?headers = "getFieldsByType cfg (data ''eventType'')"
  let ?new = "updated_row (js w) data (now_iso w) ?headers (map JStr r)"
  have cell: "let old = (if i < length r then r ! i else []); header = ?headers ! i
       in if length ?headers \<le> i then ?new ! i = JStr old
          else if header = H_lastModifiedTime then ?new ! i = JStr (now_iso w)
          else if header = H_editCount then
            (case parseInt_mathInt old of
               None \<Rightarrow> ?new ! i = JStr ''2''
             | Some n \<Rightarrow>
                 \<bar>n\<bar> < 2 ^ 53 \<longrightarrow> ?new ! i = JStr (show_int ((if n = 0 then 1 else n) + 1)))
          else ?new ! i =
                 (case update_key (data ''eventType'') header of
                    None \<Rightarrow> JStr old
                  | Some key \<Rightarrow> if data key = JUndefined then JStr old else data key)"
    if "i < length ?new" for i
  proof -
    let ?old = "if i < length r then r ! i else []"
    from that have i: "i < max (length (map JStr r)) (length ?headers)"
      by (simp add: length_updated_row)
    have old: "(if i < length (map JStr r) then map JStr r ! i else JStr []) = JStr ?old"
      by simp
    have nth: "?new ! i = (if i < length ?headers then update_cell (js w) data (now_iso w) (?headers ! i) (JStr ?old)
                           else JStr ?old)"
      using i unfolding nth_updated_row [OF i] old by auto
    show ?thesis
    proof (cases "length ?headers \<le> i")
      case True
      with nth show ?thesis by (simp add: Let_def)
    next
      case inside: False
      then have cellv: "?new ! i = update_cell (js w) data (now_iso w) (?headers ! i) (JStr ?old)"
        using nth by simp
      show ?thesis
      proof (cases "?headers ! i = H_lastModifiedTime")
        case True
        with inside cellv show ?thesis by (simp add: Let_def update_cell_def)
      next
        case notmod: False
        show ?thesis
        proof (cases "?headers ! i = H_editCount")
          case True
          have "?new ! i = JStr ''2''" if "parseInt_mathInt ?old = None"
            using that cellv True revision_unparsable [of ?old "js w" data "now_iso w"] by simp
          moreover have "?new ! i = JStr (show_int ((if n = 0 then 1 else n) + 1))"
            if "parseInt_mathInt ?old = Some n" "\<bar>n\<bar> < 2 ^ 53" for n
            using that cellv True revision_parsed [of ?old n "js w" data "now_iso w"] by simp
          ultimately show ?thesis
            using inside notmod True by (simp add: Let_def split: option.splits)
        next
          case False
          with inside notmod cellv show ?thesis
            by (auto simp: update_cell_def supplied_def Let_def update_key_eq
                  dest: create_key_nonempty split: option.splits)
        qed
      qed
    qed
  qed
  have "calls (writer_updateEventLog cfg w rowIndex (Some data) modifier)
        = SheetsGet (row_range cfg data rowIndex) # SheetsUpdate (row_range cfg data rowIndex) ?new
          # (case sheets_update w (row_range cfg data rowIndex) ?new of
               Some e \<Rightarrow> [] | None \<Rightarrow> calls (writer_invalidate w ''eventLogs''))"
    by (rule writer_update_found(1) [OF assms])
  moreover have "length ?new = max (length r) (length ?headers)"
    by (simp add: length_updated_row)
  moreover have "outcome (writer_updateEventLog cfg w rowIndex (Some data) modifier)
             = Inr \<lparr>success = True, result_id = None, moved = False\<rparr>"
    if "sheets_update w (row_range cfg data rowIndex) ?new = None"
       "has_invalidateCache (eventLogReader w)"
       "invalidateCache (eventLogReader w) ''eventLogs'' = None"
    using that writer_update_found(2) [OF assms, of modifier]
    by (simp add: writer_invalidate_ok)
  ultimately show ?thesis
    using cell by (intro exI [of _ ?new] exI) simp
qed

theorem update_partial_payload_witness:
  "\<not> invalid_rowIndex (js demo_world) (JNum (Fin 3))
   \<and> sheets_get demo_world (row_range demo_config demo_update (JNum (Fin 3))) = Inr (Some [demo_row])
   \<and> demo_row \<noteq> []
   \<and> parseInt_mathInt (demo_row ! 5) = Some 3
   \<and> (\<exists>newRow rest.
         calls (writer_updateEventLog demo_config demo_world (JNum (Fin 3)) (Some demo_update) (JStr ''Bob''))
           = SheetsGet (Range ''EventLogs_General'' (JNum (Fin 3)) CHR ''F'')
             # SheetsUpdate (Range ''EventLogs_General'' (JNum (Fin 3)) CHR ''F'') newRow # rest
         \<and> length newRow = 6
         \<and> newRow ! 1 = JStr ''Visit 2''
         \<and> newRow ! 2 = JStr ''Amy''
         \<and> newRow ! 4 = JStr ''2026-01-23T08:00:00.000Z''
         \<and> newRow ! 5 = JStr ''4'')
   \<and> outcome (writer_updateEventLog demo_config demo_world (JNum (Fin 3)) (Some demo_update) (JStr ''Bob''))
       = Inr \<lparr>success = True, result_id = None, moved = False\<rparr>"
proof -
  have get: "sheets_get demo_world (row_range demo_config demo_update (JNum (Fin 3)))
               = Inr (Some (demo_row # []))"
    by (simp add: demo_world_def)
  have ne: "demo_row \<noteq> []"
    by (simp add: demo_row_def)
  have p5: "parseInt_mathInt (demo_row ! 5) = Some 3"
    by (simp add: demo_row_def parseInt_examples)
  from update_partial_payload [OF valid_three get ne, of "JStr ''Bob''"]
  obtain newRow rest where
    c: "calls (writer_updateEventLog demo_config demo_world (JNum (Fin 3)) (Some demo_update) (JStr ''Bob''))
          = SheetsGet (row_range demo_config demo_update (JNum (Fin 3)))
            # SheetsUpdate (row_range demo_config demo_update (JNum (Fin 3))) newRow # rest"
    and l: "length newRow = max (length demo_row) (length (getFieldsByType demo_config (demo_update ''eventType'')))"
    and n: "\<forall>i < length newRow.
         let old = (if i < length demo_row then demo_row ! i else []);
             header = getFieldsByType demo_config (demo_update ''eventType'') ! i
         in if length (getFieldsByType demo_config (demo_update ''eventType'')) \<le> i then newRow ! i = JStr old
            else if header = H_lastModifiedTime then newRow ! i = JStr (now_iso demo_world)
            else if header = H_editCount then
              (case parseInt_mathInt old of
                 None \<Rightarrow> newRow ! i = JStr ''2''
               | Some n \<Rightarrow>
                   \<bar>n\<bar> < 2 ^ 53 \<longrightarrow>
                   newRow ! i = JStr (show_int ((if n = 0 then 1 else n) + 1)))
            else newRow ! i =
                   (case update_key (demo_update ''eventType'') header of
                      None \<Rightarrow> JStr old
                    | Some key \<Rightarrow> if demo_update key = JUndefined then JStr old else demo_update key)"
    and o: "sheets_update demo_world (row_range demo_config demo_update (JNum (Fin 3))) newRow = None
        \<and> has_invalidateCache (eventLogReader demo_world)
        \<and> invalidateCache (eventLogReader demo_world) ''eventLogs'' = None
       \<longrightarrow> outcome (writer_updateEventLog demo_config demo_world (JNum (Fin 3)) (Some demo_update) (JStr ''Bob''))
             = Inr \<lparr>success = True, result_id = None, moved = False\<rparr>"
    by blast
  have len: "length newRow = 6"
    using l by (simp add: demo_eval)
  have n1: "newRow ! 1 = JStr ''Visit 2''"
    using n [rule_format, of 1] len by (simp add: demo_eval Let_def)
  have n2: "newRow ! 2 = JStr ''Amy''"
    using n [rule_format, of 2] len by (simp add: demo_eval Let_def)
  have n4: "newRow ! 4 = JStr ''2026-01-23T08:00:00.000Z''"
    using n [rule_format, of 4] len by (simp add: demo_eval Let_def)
  have n5: "newRow ! 5 = JStr ''4''"
    using n [rule_format, of 5] len
    by (simp add: demo_eval Let_def parseInt_examples show_int_examples)
  have out: "outcome (writer_updateEventLog demo_config demo_world (JNum (Fin 3)) (Some demo_update) (JStr ''Bob''))
       = Inr \<lparr>success = True, result_id = None, moved = False\<rparr>"
    using o by (simp add: demo_world_def good_reader_def)
  from c len n1 n2 n4 n5 out get ne p5 valid_three [of "js demo_world"] show ?thesis
    by (simp add: demo_range)
qed

section \<open>The row-index guard of update\<close>

text \<open>
  Claim C4: the update writes to the sheet only for a row index that is a positive
  integer greater than 1, and any other row index fails with the invalid-argument error
  before any read or write. The guard \<^verbatim>\<open>isNaN(parseInt(rowIndex)) || rowIndex <= 1\<close>
  does not do that. For 2.5, \<^verbatim>\<open>parseInt\<close> gives 2 and \<^verbatim>\<open>2.5 <= 1\<close> is false;
  for \<^verbatim>\<open>'2abc'\<close>, \<^verbatim>\<open>parseInt\<close> gives 2 and the comparison, on \<^verbatim>\<open>NaN\<close>, is
  false. Both pass: the sheet is read at a range built from the raw value (where reads
  are rejected, the call ends with the store's error, not the invalid-argument error),
  and where the read answers, the row is written back at that range and the call
  succeeds. The service's own entry point refuses the same 2.5 with its integer check.
\<close>

theorem guard_accepts_fractional_rowIndex:
  "\<not> isInteger (Fin (5 / 2))
   \<and> outcome (writer_updateEventLog demo_config demo_world_reject (JNum (Fin (5 / 2))) (Some demo_update) (JStr ''Bob''))
       = Inl (Failure 400)
   \<and> calls (writer_updateEventLog demo_config demo_world_reject (JNum (Fin (5 / 2))) (Some demo_update) (JStr ''Bob''))
       = [SheetsGet (Range ''EventLogs_General'' (JNum (Fin (5 / 2))) CHR ''F'')]
   \<and> outcome (writer_updateEventLog demo_config demo_world (JNum (Fin (5 / 2))) (Some demo_update) (JStr ''Bob''))
       = Inr \<lparr>success = True, result_id = None, moved = False\<rparr>
   \<and> calls (writer_updateEventLog demo_config demo_world (JNum (Fin (5 / 2))) (Some demo_update) (JStr ''Bob''))
       = [SheetsGet (Range ''EventLogs_General'' (JNum (Fin (5 / 2))) CHR ''F''),
          SheetsUpdate (Range ''EventLogs_General'' (JNum (Fin (5 / 2))) CHR ''F'')
            [JStr ''EVT1700000000000'', JStr ''Visit 2'', JStr ''Amy'',
             JStr ''2026-01-01T00:00:00.000Z'', JStr ''2026-01-23T08:00:00.000Z'', JStr ''4''],
          WriterInvalidate ''eventLogs'']
   \<and> calls (writer_updateEventLog demo_config demo_world (JStr ''2abc'') (Some demo_update) (JStr ''Bob''))
       = [SheetsGet (Range ''EventLogs_General'' (JStr ''2abc'') CHR ''F''),
          SheetsUpdate (Range ''EventLogs_General'' (JStr ''2abc'') CHR ''F'')
            [JStr ''EVT1700000000000'', JStr ''Visit 2'', JStr ''Amy'',
             JStr ''2026-01-01T00:00:00.000Z'', JStr ''2026-01-23T08:00:00.000Z'', JStr ''4''],
          WriterInvalidate ''eventLogs'']
   \<and> outcome (service_updateEventLog demo_config demo_world (JNum (Fin (5 / 2))) (Some demo_update) (JStr ''Bob''))
       = Inl InvalidResolvedRowIndex"
proof -
  have fl: "\<lfloor>5 / 2 :: rat\<rfloor> = 2"
    by (rule floor_unique) simp_all
  have valid: "\<not> invalid_rowIndex rt (JNum (Fin (5 / 2)))" for rt
    by (simp add: invalid_rowIndex_def js_le_one_def)
  have range: "row_range demo_config demo_update v = Range ''EventLogs_General'' v CHR ''F''" for v
    by (simp add: row_range_def demo_config_def demo_update_def empty_obj_def
          getSheetNameByType_def getFieldsByType_def column_letters)
  have reject: "sheets_get demo_world_reject rg = Inl (Failure 400)" for rg
    by (simp add: demo_world_reject_def)
  have get: "sheets_get demo_world rg = Inr (Some (demo_row # []))" for rg
    by (simp add: demo_world_def)
  have ne: "demo_row \<noteq> []"
    by (simp add: demo_row_def)
  have rev: "update_cell rt demo_update now H_editCount (JStr ''3'') = JStr ''4''" for rt now
    using revision_parsed [of "''3''" 3 rt demo_update now]
    by (simp add: parseInt_examples show_int_examples)
  have row: "updated_row rt demo_update ''2026-01-23T08:00:00.000Z''
       (getFieldsByType demo_config (demo_update ''eventType'')) (map JStr demo_row)
     = [JStr ''EVT1700000000000'', JStr ''Visit 2'', JStr ''Amy'',
           JStr ''2026-01-01T00:00:00.000Z'', JStr ''2026-01-23T08:00:00.000Z'', JStr ''4'']" for rt
    using rev [of rt "''2026-01-23T08:00:00.000Z''"]
    by (simp add: updated_row_def pad_row_eq demo_config_def demo_update_def empty_obj_def
          getFieldsByType_def demo_row_def)
       (simp add: update_cell_def update_key_def supplied_def HEADER_TO_KEY_MAP_def header_defs)
  have w: "now_iso demo_world = ''2026-01-23T08:00:00.000Z''" "sheets_update demo_world rg rw = None"
    "calls (writer_invalidate demo_world ''eventLogs'') = [WriterInvalidate ''eventLogs'']"
    "outcome (writer_invalidate demo_world ''eventLogs'') = Inr ()"
    "getEventLogs demo_world = Inr [demo_log]" for rg rw
    by (simp_all add: demo_world_def writer_invalidate_def good_reader_def calls_simps outcome_simps)
  have service: "outcome (service_updateEventLog demo_config demo_world (JNum (Fin (5 / 2))) (Some demo_update) (JStr ''Bob''))
       = Inl InvalidResolvedRowIndex"
    using fl
    by (simp add: service_updateEventLog_def Let_def resolve_rowIndex_def w outcome_bind outcome_simps)
  show ?thesis
    using writer_update_read_failed [OF valid reject, of demo_config demo_update "JStr ''Bob''"]
      writer_update_found [OF valid get ne, of demo_config demo_update "JStr ''Bob''"]
      writer_update_found(1) [OF guard_examples(1) get ne, of demo_config demo_update "JStr ''Bob''"]
      fl service
    by (simp add: range row w)
qed

section \<open>Create\<close>

text \<open>
  Claim C5. A create appends, to the sheet of the payload's event type, the row obtained
  by walking the type's schema in order and applying the specification's column rule
  (\<open>spec_create_cell\<close>): the identity column holds the generated id, which is the
  literal \<^verbatim>\<open>EVT\<close> followed by a non-empty run of decimal digits; the creator column
  the given creator; both timestamp columns the current time; the revision column "1";
  every other column the payload's value at the resolved key, or the empty string. When
  the append and the invalidation that follows it go through, the call returns success
  together with that id.
\<close>

theorem create_row_and_id:
  "hd (calls (writer_createEventLog cfg w (Some data) creator))
     = SheetsAppend (getSheetNameByType cfg (data ''eventType''))
         (map (spec_create_cell data creator (now_iso w) (''EVT'' @ show_nat (now_ms w)))
              (getFieldsByType cfg (data ''eventType'')))
   \<and> show_nat (now_ms w) \<noteq> []
   \<and> list_all (is_digit 10) (show_nat (now_ms w))
   \<and> (sheets_append w (getSheetNameByType cfg (data ''eventType''))
         (map (spec_create_cell data creator (now_iso w) (''EVT'' @ show_nat (now_ms w)))
              (getFieldsByType cfg (data ''eventType''))) = None
       \<and> has_invalidateCache (eventLogReader w)
       \<and> invalidateCache (eventLogReader w) ''eventLogs'' = None
      \<longrightarrow> outcome (writer_createEventLog cfg w (Some data) creator)
            = Inr \<lparr>success = True, result_id = Some (''EVT'' @ show_nat (now_ms w)), moved = False\<rparr>)"
proof -
  let ?headers = "getFieldsByType cfg (data ''eventType'')"
  let ?sheet = "getSheetNameByType cfg (data ''eventType'')"
  let ?id = "''EVT'' @ show_nat (now_ms w)"
  let ?row = "map (spec_create_cell data creator (now_iso w) ?id) ?headers"
  have c: "hd (calls (writer_createEventLog cfg w (Some data) creator)) = SheetsAppend ?sheet ?row"
    by (simp add: writer_createEventLog_def Let_def calls_bind calls_simps create_cell_spec split: sum.splits)
  have o: "outcome (writer_createEventLog cfg w (Some data) creator)
              = Inr \<lparr>success = True, result_id = Some ?id, moved = False\<rparr>"
    if "sheets_append w ?sheet ?row = None" "has_invalidateCache (eventLogReader w)"
       "invalidateCache (eventLogReader w) ''eventLogs'' = None"
    using that
    by (simp add: writer_createEventLog_def Let_def outcome_bind outcome_simps writer_invalidate_ok create_cell_spec)
  from c o show ?thesis
    using show_nat_nonempty show_nat_digits by blast
qed

theorem create_row_and_id_witness:
  "hd (calls (writer_createEventLog demo_config demo_world (Some demo_create) (JStr ''Amy'')))
     = SheetsAppend ''EventLogs_IOT''
         [JStr ''EVT1769155200000'', JStr ''Line audit'', JStr ''Amy'',
          JStr ''2026-01-23T08:00:00.000Z'', JStr ''2026-01-23T08:00:00.000Z'', JStr ''1'',
          JStr ''40'']
   \<and> outcome (writer_createEventLog demo_config demo_world (Some demo_create) (JStr ''Amy''))
       = Inr \<lparr>success = True, result_id = Some ''EVT1769155200000'', moved = False\<rparr>"
  using create_row_and_id [of demo_config demo_world demo_create "JStr ''Amy''"]
  by (simp add: demo_config_def demo_world_def demo_create_def good_reader_def empty_obj_def
        getSheetNameByType_def getFieldsByType_def spec_create_cell_def create_key_def
        HEADER_TO_KEY_MAP_def header_defs show_nat_demo)

section \<open>Resolving the original record\<close>




section \<open>Schema registry: label to key\<close>

text \<open>
  Claim C7. In create and in update, the key under which a column is read from the
  payload depends on the payload's event type and the column label only, and the event
  type is consulted before the generic label-to-key map: the device-scale column holds
  the payload's value at the IOT key when the type is \<^verbatim>\<open>iot\<close>, at the DT key when
  the type is \<^verbatim>\<open>dt\<close>, and at the key of the generic map under any other type;
  every other column is read at the key of the generic map. In the row that create
  appends, every column other than the five system columns holds the payload's value at
  that key, or the empty string when the payload has none; in the row that update writes
  back, every schema column other than the modified-timestamp and revision columns holds
  the payload's value at that key, or the cell read when the payload has none.
\<close>

theorem key_resolution_by_type:
  "(\<exists>row rest.
       calls (writer_createEventLog cfg w (Some data) creator)
         = SheetsAppend (getSheetNameByType cfg (data ''eventType'')) row # rest
     \<and> length row = length (getFieldsByType cfg (data ''eventType''))
     \<and> (\<forall>i < length row.
          let label = getFieldsByType cfg (data ''eventType'') ! i in
          label \<notin> set [H_eventId, H_creator, H_createdTime, H_lastModifiedTime, H_editCount] \<longrightarrow>
          row ! i = (case payload_value data (spec_key (data ''eventType'') label) of
                       None \<Rightarrow> JStr []
                     | Some v \<Rightarrow> v)))
   \<and> (\<not> invalid_rowIndex (js w) rowIndex
       \<and> sheets_get w (row_range cfg data rowIndex) = Inr (Some (r # rs)) \<and> r \<noteq> [] \<longrightarrow>
       (\<exists>row rest.
          calls (writer_updateEventLog cfg w rowIndex (Some data) modifier)
            = SheetsGet (row_range cfg data rowIndex)
              # SheetsUpdate (row_range cfg data rowIndex) row # rest
        \<and> (\<forall>i < length (getFieldsByType cfg (data ''eventType'')).
             let label = getFieldsByType cfg (data ''eventType'') ! i;
                 old = JStr (if i < length r then r ! i else [])
             in label \<notin> set [H_lastModifiedTime, H_editCount] \<longrightarrow>
                row ! i = (case payload_value data (spec_key (data ''eventType'') label) of
                             None \<Rightarrow> old
                           | Some v \<Rightarrow> v))))"
proof -
  let ?headers = "getFieldsByType cfg (data ''eventType'')"
  let ?created = "map (create_cell data creator (now_iso w) (''EVT'' @ show_nat (now_ms w))) ?headers"
  have create: "\<exists>row rest.
       calls (writer_createEventLog cfg w (Some data) creator)
         = SheetsAppend (getSheetNameByType cfg (data ''eventType'')) row # rest
     \<and> length row = length ?headers
     \<and> (\<forall>i < length row.
          let label = ?headers ! i in
          label \<notin> set [H_eventId, H_creator, H_createdTime, H_lastModifiedTime, H_editCount] \<longrightarrow>
          row ! i = (case payload_value data (spec_key (data ''eventType'') label) of
                       None \<Rightarrow> JStr []
                     | Some v \<Rightarrow> v))"
  proof (intro exI [of _ ?created] exI conjI)
    show "calls (writer_createEventLog cfg w (Some data) creator)
         = SheetsAppend (getSheetNameByType cfg (data ''eventType'')) ?created
           # (case sheets_append w (getSheetNameByType cfg (data ''eventType'')) ?created of
                Some e \<Rightarrow> []
              | None \<Rightarrow> calls (writer_invalidate w ''eventLogs''))"
      by (rule writer_create_calls)
    show "length ?created = length ?headers"
      by simp
    show "\<forall>i < length ?created.
          let label = ?headers ! i in
          label \<notin> set [H_eventId, H_creator, H_createdTime, H_lastModifiedTime, H_editCount] \<longrightarrow>
          ?created ! i = (case payload_value data (spec_key (data ''eventType'') label) of
                       None \<Rightarrow> JStr []
                     | Some v \<Rightarrow> v)"
      using create_cell_payload [of _ data creator "now_iso w" "''EVT'' @ show_nat (now_ms w)"]
      by (simp add: Let_def del: set_simps)
  qed
  have update: "\<exists>row rest.
          calls (writer_updateEventLog cfg w rowIndex (Some data) modifier)
            = SheetsGet (row_range cfg data rowIndex)
              # SheetsUpdate (row_range cfg data rowIndex) row # rest
        \<and> (\<forall>i < length ?headers.
             let label = ?headers ! i;
                 old = JStr (if i < length r then r ! i else [])
             in label \<notin> set [H_lastModifiedTime, H_editCount] \<longrightarrow>
                row ! i = (case payload_value data (spec_key (data ''eventType'') label) of
                             None \<Rightarrow> old
                           | Some v \<Rightarrow> v))"
    if valid: "\<not> invalid_rowIndex (js w) rowIndex"
      and get: "sheets_get w (row_range cfg data rowIndex) = Inr (Some (r # rs))"
      and ne: "r \<noteq> []"
  proof -
    let ?new = "updated_row (js w) data (now_iso w) ?headers (map JStr r)"
    have cell: "?new ! i = (case payload_value data (spec_key (data ''eventType'') (?headers ! i)) of
                             None \<Rightarrow> JStr (if i < length r then r ! i else [])
                           | Some v \<Rightarrow> v)"
      if i: "i < length ?headers" and label: "?headers ! i \<notin> set [H_lastModifiedTime, H_editCount]" for i
    proof -
      from i have m: "i < max (length (map JStr r)) (length ?headers)"
        by simp
      have old: "(if i < length (map JStr r) then map JStr r ! i else JStr [])
          = JStr (if i < length r then r ! i else [])"
        by simp
      show ?thesis
        unfolding nth_updated_row [OF m] old using i update_cell_payload [OF label]
        by simp
    qed
    have "calls (writer_updateEventLog cfg w rowIndex (Some data) modifier)
        = SheetsGet (row_range cfg data rowIndex) # SheetsUpdate (row_range cfg data rowIndex) ?new
          # (case sheets_update w (row_range cfg data rowIndex) ?new of
               Some e \<Rightarrow> [] | None \<Rightarrow> calls (writer_invalidate w ''eventLogs''))"
      by (rule writer_update_found(1) [OF valid get ne])
    then show ?thesis
      using cell by (intro exI [of _ ?new] exI) (simp add: Let_def del: set_simps)
  qed
  from create update show ?thesis
    by blast
qed

theorem key_resolution_by_type_witness:
  "\<not> invalid_rowIndex (js demo_world) (JNum (Fin 3))
   \<and> sheets_get demo_world (row_range demo_config_dt demo_create_dt (JNum (Fin 3))) = Inr (Some [demo_row])
   \<and> demo_row \<noteq> []
   \<and> getFieldsByType demo_config_dt (demo_create_dt ''eventType'') ! 7 = H_deviceScale
   \<and> getFieldsByType demo_config (demo_create ''eventType'') ! 6 = H_deviceScale
   \<and> demo_create_dt ''iot_deviceScale'' = JStr ''40''
   \<and> demo_create_dt ''dt_deviceScale'' = JStr ''7''
   \<and> demo_create ''iot_deviceScale'' = JStr ''40''
   \<and> (\<exists>row rest.
         calls (writer_createEventLog demo_config_dt demo_world (Some demo_create_dt) (JStr ''Amy''))
           = SheetsAppend ''EventLogs_DT'' row # rest
       \<and> length row = 8 \<and> row ! 1 = JStr ''Line audit'' \<and> row ! 7 = JStr ''7'')
   \<and> (\<exists>row rest.
         calls (writer_updateEventLog demo_config_dt demo_world (JNum (Fin 3)) (Some demo_create_dt) (JStr ''Bob''))
           = SheetsGet (Range ''EventLogs_DT'' (JNum (Fin 3)) CHR ''H'')
             # SheetsUpdate (Range ''EventLogs_DT'' (JNum (Fin 3)) CHR ''H'') row # rest
       \<and> row ! 2 = JStr ''Amy'' \<and> row ! 6 = JStr [] \<and> row ! 7 = JStr ''7'')
   \<and> (\<exists>row rest.
         calls (writer_createEventLog demo_config demo_world (Some demo_create) (JStr ''Amy''))
           = SheetsAppend ''EventLogs_IOT'' row # rest
       \<and> length row = 7 \<and> row ! 6 = JStr ''40'')"
proof -
  have get: "sheets_get demo_world rg = Inr (Some (demo_row # []))" for rg
    by (simp add: demo_world_def)
  have ne: "demo_row \<noteq> []" "length demo_row = 6" "demo_row ! 2 = ''Amy''"
    by (simp_all add: demo_row_def)
  have dt: "demo_create_dt ''eventType'' = JStr ''dt''" "demo_create_dt ''iot_deviceScale'' = JStr ''40''"
    "demo_create_dt ''dt_deviceScale'' = JStr ''7''" "demo_create_dt ''eventName'' = JStr ''Line audit''"
    "demo_create_dt ''creator'' = JUndefined" "demo_create_dt ''dt_processingType'' = JUndefined"
    by (simp_all add: demo_create_dt_def empty_obj_def)
  have iot: "demo_create ''eventType'' = JStr ''iot''" "demo_create ''iot_deviceScale'' = JStr ''40''"
    by (simp_all add: demo_create_def empty_obj_def)
  have hs: "getFieldsByType demo_config_dt (JStr ''dt'')
      = [H_eventId, H_eventName, H_creator, H_createdTime, H_lastModifiedTime, H_editCount,
         H_dt_processingType, H_deviceScale]"
    "getFieldsByType demo_config (JStr ''iot'')
      = [H_eventId, H_eventName, H_creator, H_createdTime, H_lastModifiedTime, H_editCount, H_deviceScale]"
    "getSheetNameByType demo_config_dt (JStr ''dt'') = ''EventLogs_DT''"
    "getSheetNameByType demo_config (JStr ''iot'') = ''EventLogs_IOT''"
    by (simp_all add: getFieldsByType_def getSheetNameByType_def demo_config_dt_def demo_config_def)
  have range: "row_range demo_config_dt demo_create_dt v = Range ''EventLogs_DT'' v CHR ''H''" for v
    by (simp add: row_range_def dt hs char_of_eq_iff)
  have keys: "spec_key (JStr ''dt'') H_deviceScale = Some ''dt_deviceScale''"
    "spec_key (JStr ''iot'') H_deviceScale = Some ''iot_deviceScale''"
    "spec_key (JStr ''dt'') H_eventName = Some ''eventName''"
    "spec_key (JStr ''dt'') H_creator = Some ''creator''"
    "spec_key (JStr ''dt'') H_dt_processingType = Some ''dt_processingType''"
    by (simp_all add: spec_key_def HEADER_TO_KEY_MAP_def header_defs)
  have labels: "H_deviceScale \<notin> set [H_eventId, H_creator, H_createdTime, H_lastModifiedTime, H_editCount]"
    "H_eventName \<notin> set [H_eventId, H_creator, H_createdTime, H_lastModifiedTime, H_editCount]"
    "H_deviceScale \<notin> set [H_lastModifiedTime, H_editCount]"
    "H_creator \<notin> set [H_lastModifiedTime, H_editCount]"
    "H_dt_processingType \<notin> set [H_lastModifiedTime, H_editCount]"
    by (simp_all add: header_defs)
  note dt_run = key_resolution_by_type [of demo_config_dt demo_world demo_create_dt "JStr ''Amy''"
      "JNum (Fin 3)" demo_row "[]" "JStr ''Bob''"]
  note iot_run = key_resolution_by_type [of demo_config demo_world demo_create "JStr ''Amy''"
      "JNum (Fin 3)" demo_row "[]" "JStr ''Bob''"]
  from dt_run obtain row rest where
    c: "calls (writer_createEventLog demo_config_dt demo_world (Some demo_create_dt) (JStr ''Amy''))
         = SheetsAppend (getSheetNameByType demo_config_dt (demo_create_dt ''eventType'')) row # rest"
    and l: "length row = length (getFieldsByType demo_config_dt (demo_create_dt ''eventType''))"
    and n: "\<forall>i < length row.
          let label = getFieldsByType demo_config_dt (demo_create_dt ''eventType'') ! i in
          label \<notin> set [H_eventId, H_creator, H_createdTime, H_lastModifiedTime, H_editCount] \<longrightarrow>
          row ! i = (case payload_value demo_create_dt (spec_key (demo_create_dt ''eventType'') label) of
                       None \<Rightarrow> JStr []
                     | Some v \<Rightarrow> v)"
    by blast
  have len: "length row = 8"
    using l by (simp add: dt hs)
  have "row ! 1 = JStr ''Line audit''"
    using n [rule_format, of 1] len labels(2) by (simp add: dt hs keys payload_value_def Let_def del: set_simps)
  moreover have "row ! 7 = JStr ''7''"
    using n [rule_format, of 7] len labels(1) by (simp add: dt hs keys payload_value_def Let_def del: set_simps)
  ultimately have created: "\<exists>row rest.
         calls (writer_createEventLog demo_config_dt demo_world (Some demo_create_dt) (JStr ''Amy''))
           = SheetsAppend ''EventLogs_DT'' row # rest
       \<and> length row = 8 \<and> row ! 1 = JStr ''Line audit'' \<and> row ! 7 = JStr ''7''"
    using c len by (auto simp: dt hs)
  from dt_run valid_three [of "js demo_world"] get [of "row_range demo_config_dt demo_create_dt (JNum (Fin 3))"] ne(1)
  obtain row2 rest2 where
    c2: "calls (writer_updateEventLog demo_config_dt demo_world (JNum (Fin 3)) (Some demo_create_dt) (JStr ''Bob''))
            = SheetsGet (row_range demo_config_dt demo_create_dt (JNum (Fin 3)))
              # SheetsUpdate (row_range demo_config_dt demo_create_dt (JNum (Fin 3))) row2 # rest2"
    and n2: "\<forall>i < length (getFieldsByType demo_config_dt (demo_create_dt ''eventType'')).
             let label = getFieldsByType demo_config_dt (demo_create_dt ''eventType'') ! i;
                 old = JStr (if i < length demo_row then demo_row ! i else [])
             in label \<notin> set [H_lastModifiedTime, H_editCount] \<longrightarrow>
                row2 ! i = (case payload_value demo_create_dt (spec_key (demo_create_dt ''eventType'') label) of
                             None \<Rightarrow> old
                           | Some v \<Rightarrow> v)"
    by blast
  have "row2 ! 2 = JStr ''Amy''"
    using n2 [rule_format, of 2] labels(4) ne by (simp add: dt hs keys payload_value_def Let_def del: set_simps)
  moreover have "row2 ! 6 = JStr []"
    using n2 [rule_format, of 6] labels(5) ne by (simp add: dt hs keys payload_value_def Let_def del: set_simps)
  moreover have "row2 ! 7 = JStr ''7''"
    using n2 [rule_format, of 7] labels(3) ne by (simp add: dt hs keys payload_value_def Let_def del: set_simps)
  ultimately have updated: "\<exists>row rest.
         calls (writer_updateEventLog demo_config_dt demo_world (JNum (Fin 3)) (Some demo_create_dt) (JStr ''Bob''))
           = SheetsGet (Range ''EventLogs_DT'' (JNum (Fin 3)) CHR ''H'')
             # SheetsUpdate (Range ''EventLogs_DT'' (JNum (Fin 3)) CHR ''H'') row # rest
       \<and> row ! 2 = JStr ''Amy'' \<and> row ! 6 = JStr [] \<and> row ! 7 = JStr ''7''"
    using c2 by (auto simp: range)
  from iot_run obtain row3 rest3 where
    c3: "calls (writer_createEventLog demo_config demo_world (Some demo_create) (JStr ''Amy''))
         = SheetsAppend (getSheetNameByType demo_config (demo_create ''eventType'')) row3 # rest3"
    and l3: "length row3 = length (getFieldsByType demo_config (demo_create ''eventType''))"
    and n3: "\<forall>i < length row3.
          let label = getFieldsByType demo_config (demo_create ''eventType'') ! i in
          label \<notin> set [H_eventId, H_creator, H_createdTime, H_lastModifiedTime, H_editCount] \<longrightarrow>
          row3 ! i = (case payload_value demo_create (spec_key (demo_create ''eventType'') label) of
                       None \<Rightarrow> JStr []
                     | Some v \<Rightarrow> v)"
    by blast
  have len3: "length row3 = 7"
    using l3 by (simp add: iot hs)
  have "row3 ! 6 = JStr ''40''"
    using n3 [rule_format, of 6] len3 labels(1) by (simp add: iot hs keys payload_value_def Let_def del: set_simps)
  then have created_iot: "\<exists>row rest.
         calls (writer_createEventLog demo_config demo_world (Some demo_create) (JStr ''Amy''))
           = SheetsAppend ''EventLogs_IOT'' row # rest
       \<and> length row = 7 \<and> row ! 6 = JStr ''40''"
    using c3 len3 by (auto simp: iot hs)
  have h: "getFieldsByType demo_config_dt (demo_create_dt ''eventType'') ! 7 = H_deviceScale"
    "getFieldsByType demo_config (demo_create ''eventType'') ! 6 = H_deviceScale"
    by (simp_all add: dt iot hs)
  from valid_three [of "js demo_world"] get [of "row_range demo_config_dt demo_create_dt (JNum (Fin 3))"]
    ne(1) h dt(2,3) iot(2) created updated created_iot
  show ?thesis
    by blast
qed

section \<open>Join and presentation: copies, never the cache\<close>

text \<open>
  Claim C8, as stated, fails on the display name when the matching collaborator has an
  empty name: \<^verbatim>\<open>oppMap.get(id) || id\<close> then echoes the raw id, although a match
  exists. Below, the opportunity \<^verbatim>\<open>OPP1\<close> matches and is named "", and the copy's
  display field is \<^verbatim>\<open>OPP1\<close>.
\<close>

theorem unnamed_collaborator_counterexample:
  "demo_opp_unnamed ''opportunityId'' = demo_event ''opportunityId''
   \<and> demo_opp_unnamed ''opportunityName'' = JStr []
   \<and> fst (service_getAllEvents [demo_event] (Inr [0]) (Inr [demo_opp_unnamed]) (Inr [])) = Inr [1]
   \<and> (snd (service_getAllEvents [demo_event] (Inr [0]) (Inr [demo_opp_unnamed]) (Inr [])) ! 1) ''opportunityName''
       = JStr ''OPP1''"
proof -
  have all: "service_getAllEvents [demo_event] (Inr [0]) (Inr [demo_opp_unnamed]) (Inr [])
       = (Inr [1], [demo_event, enriched [demo_opp_unnamed] [] demo_event])"
    using getAllEvents_ok [of "[0]" "[demo_event]" "[demo_opp_unnamed]" "[]"] by simp
  show ?thesis
    by (simp add: all demo_enriched demo_event_fields) (simp add: demo_opp_unnamed_def empty_obj_def)
qed

text \<open>
  Claim C8, amended. Every record returned by the read operations is a new object, a
  shallow copy of the cached record with the display names attached on the copy; a
  display name equals the matching collaborator's name when that name is not empty, and
  echoes the raw id when no collaborator matches or the name is empty
  (\<open>enriched\<close>). The store keeps every object it had, unchanged, so the cached
  records are never mutated and hold no display field they did not already have; the
  references returned are fresh, and a second enrichment of the same records returns
  objects distinct from those of the first.
\<close>

theorem enrichment_returns_copies:
  assumes "\<forall>a \<in> set events. a < length h" and "rawEvent < length h"
  shows
    "service_getAllEvents h (Inr events) (Inr opps) (Inr comps)
       = (Inr [length h ..< length h + length events],
          h @ map (\<lambda>a. enriched opps comps (h ! a)) events)
     \<and> service_getAllEvents (h @ map (\<lambda>a. enriched opps comps (h ! a)) events)
          (Inr events) (Inr opps) (Inr comps)
       = (Inr [length h + length events ..< length h + length events + length events],
          h @ map (\<lambda>a. enriched opps comps (h ! a)) events
            @ map (\<lambda>a. enriched opps comps (h ! a)) events)
     \<and> set [length h ..< length h + length events]
         \<inter> set [length h + length events ..< length h + length events + length events] = {}
     \<and> service_getEventById h (Inr (Some rawEvent)) (Inr opps) (Inr comps)
       = (Inr (JObj (length h)), h @ [enriched opps comps (h ! rawEvent)])
     \<and> (\<forall>a < length h.
           snd (service_getAllEvents h (Inr events) (Inr opps) (Inr comps)) ! a = h ! a
           \<and> snd (service_getEventById h (Inr (Some rawEvent)) (Inr opps) (Inr comps)) ! a = h ! a)"
proof -
  let ?new = "map (\<lambda>a. enriched opps comps (h ! a)) events"
  have first: "service_getAllEvents h (Inr events) (Inr opps) (Inr comps)
       = (Inr [length h ..< length h + length events], h @ ?new)"
    by (rule getAllEvents_ok [OF assms(1)])
  have valid: "\<forall>a \<in> set events. a < length (h @ ?new)"
    using assms(1) by auto
  have same: "map (\<lambda>a. enriched opps comps ((h @ ?new) ! a)) events = ?new"
    using assms(1) by (auto simp: nth_append)
  have second: "service_getAllEvents (h @ ?new) (Inr events) (Inr opps) (Inr comps)
       = (Inr [length h + length events ..< length h + length events + length events],
          h @ ?new @ ?new)"
    using getAllEvents_ok [OF valid, of opps comps] same by simp
  have byid: "service_getEventById h (Inr (Some rawEvent)) (Inr opps) (Inr comps)
       = (Inr (JObj (length h)), h @ [enriched opps comps (h ! rawEvent)])"
    by (rule getEventById_ok [OF assms(2)])
  have disj: "set [length h ..< length h + length events]
         \<inter> set [length h + length events ..< length h + length events + length events] = {}"
    by auto
  have frame: "\<forall>a < length h.
           snd (service_getAllEvents h (Inr events) (Inr opps) (Inr comps)) ! a = h ! a
           \<and> snd (service_getEventById h (Inr (Some rawEvent)) (Inr opps) (Inr comps)) ! a = h ! a"
    by (simp add: first byid nth_append)
  from first second disj byid frame show ?thesis
    by (intro conjI)
qed

theorem enrichment_returns_copies_witness:
  "0 < length [demo_event]
   \<and> fst (service_getAllEvents [demo_event] (Inr [0]) (Inr [demo_opp]) (Inr [demo_comp])) = Inr [1]
   \<and> (snd (service_getAllEvents [demo_event] (Inr [0]) (Inr [demo_opp]) (Inr [demo_comp])) ! 1) ''opportunityName''
       = JStr ''Retrofit''
   \<and> (snd (service_getAllEvents [demo_event] (Inr [0]) (Inr [demo_opp]) (Inr [demo_comp])) ! 1) ''companyName''
       = JStr ''Acme''
   \<and> snd (service_getAllEvents [demo_event] (Inr [0]) (Inr [demo_opp]) (Inr [demo_comp])) ! 0 = demo_event
   \<and> demo_event ''opportunityName'' = JUndefined
   \<and> fst (service_getEventById [demo_event] (Inr (Some 0)) (Inr [demo_opp]) (Inr [demo_comp])) = Inr (JObj 1)"
proof -
  have valid: "\<forall>a \<in> set [0]. a < length [demo_event]"
    by simp
  from enrichment_returns_copies [OF valid, of 0 "[demo_opp]" "[demo_comp]"]
  have all: "service_getAllEvents [demo_event] (Inr [0]) (Inr [demo_opp]) (Inr [demo_comp])
       = (Inr [1], [demo_event, enriched [demo_opp] [demo_comp] demo_event])"
    and byid: "service_getEventById [demo_event] (Inr (Some 0)) (Inr [demo_opp]) (Inr [demo_comp])
       = (Inr (JObj 1), [demo_event, enriched [demo_opp] [demo_comp] demo_event])"
    by simp_all
  show ?thesis
    by (simp add: all byid demo_enriched demo_event_fields)
qed

section \<open>Cache invalidation\<close>

text \<open>
  Claim C9 says that a failure of the cache invalidation never fails a mutation whose
  table write has succeeded. The service's own invalidation is guarded and always
  completes (\<open>invalidateEventCacheSafe_outcome\<close>), but the writer invalidates too,
  outside any \<^verbatim>\<open>try\<close> (\<open>service_create_invalidation_throws\<close>). At a concrete
  create: the reader injected into the writer throws on \<^verbatim>\<open>invalidateCache\<close>; the
  append goes through, the writer's invalidation throws, the service's
  \<^verbatim>\<open>createEvent\<close> rethrows, and its guarded invalidation is never reached.
\<close>

theorem writer_invalidation_fails_create:
  "sheets_append demo_world_inval ''EventLogs_IOT''
      [JStr ''EVT1769155200000'', JStr ''Line audit'', JStr ''Amy'',
       JStr ''2026-01-23T08:00:00.000Z'', JStr ''2026-01-23T08:00:00.000Z'', JStr ''1'', JStr ''40''] = None
   \<and> calls (service_createEvent demo_config demo_world_inval (Some demo_create) (Some demo_user))
       = [SheetsAppend ''EventLogs_IOT''
            [JStr ''EVT1769155200000'', JStr ''Line audit'', JStr ''Amy'',
             JStr ''2026-01-23T08:00:00.000Z'', JStr ''2026-01-23T08:00:00.000Z'', JStr ''1'', JStr ''40''],
          WriterInvalidate ''eventLogs'']
   \<and> outcome (service_createEvent demo_config demo_world_inval (Some demo_create) (Some demo_user))
       = Inl (Failure 1)"
proof -
  have w: "now_iso demo_world_inval = ''2026-01-23T08:00:00.000Z''"
    "now_ms demo_world_inval = 1769155200000"
    "sheets_append demo_world_inval s row = None" "eventLogReader demo_world_inval = failing_reader"
    for s row
    by (simp_all add: demo_world_inval_def demo_world_def)
  have m: "modifier_of (Some demo_user) = JStr ''Amy''"
    by (simp add: modifier_of_def opt_prop_def js_or_def demo_user_def empty_obj_def)
  have t: "demo_create ''eventType'' = JStr ''iot''"
    by (simp add: demo_create_def empty_obj_def)
  have row: "map (spec_create_cell demo_create (JStr ''Amy'') ''2026-01-23T08:00:00.000Z'' ''EVT1769155200000'')
       (getFieldsByType demo_config (JStr ''iot''))
     = [JStr ''EVT1769155200000'', JStr ''Line audit'', JStr ''Amy'',
        JStr ''2026-01-23T08:00:00.000Z'', JStr ''2026-01-23T08:00:00.000Z'', JStr ''1'', JStr ''40'']"
    by (simp add: demo_create_def empty_obj_def demo_config_def getFieldsByType_def
          spec_create_cell_def create_key_def HEADER_TO_KEY_MAP_def header_defs)
  have cre: "writer_createEventLog demo_config demo_world_inval (Some demo_create) (JStr ''Amy'')
      = (Inl (Failure 1),
         [SheetsAppend ''EventLogs_IOT''
            [JStr ''EVT1769155200000'', JStr ''Line audit'', JStr ''Amy'',
             JStr ''2026-01-23T08:00:00.000Z'', JStr ''2026-01-23T08:00:00.000Z'', JStr ''1'', JStr ''40''],
          WriterInvalidate ''eventLogs''])"
    using row
    by (simp add: writer_createEventLog_def Let_def create_cell_spec w t show_nat_demo
          getSheetNameByType_def demo_config_def
          writer_invalidate_def failing_reader_def bind_def invoke_def ret_def)
  show ?thesis
    by (simp add: service_createEvent_def Let_def m cre w bind_def outcome_def calls_def)
qed

section \<open>Reads never fail outward\<close>

text \<open>
  Claim C10, as stated, fails on what the fetch-by-id returns when the join sources
  fail: it is not the raw cached record (reference 0 below) but the clone made before
  the join (reference 1), which already carries the alias \<^verbatim>\<open>id\<close> that the cached
  record lacks.
\<close>

theorem join_failure_returns_clone_counterexample:
  "fst (service_getEventById [demo_event] (Inr (Some 0)) (Inl (Failure 1)) (Inr [demo_comp])) = Inr (JObj 1)
   \<and> JObj 1 \<noteq> JObj 0
   \<and> (snd (service_getEventById [demo_event] (Inr (Some 0)) (Inl (Failure 1)) (Inr [demo_comp])) ! 1) ''id''
       = JStr ''EVT1700000000000''
   \<and> demo_event ''id'' = JUndefined"
  using getEventById_join_failed [of "Inl (Failure 1)" "Inr [demo_comp]" "[demo_event]" 0]
  by (simp add: with_id_alias_def demo_event_fields)

text \<open>
  Claim C10, amended. The read operations never propagate a failure: each returns a
  value whatever the fetches answer. When any of the three fetches fails the bulk read
  returns the empty list and leaves the store as it was; when only the join-source
  fetches fail the fetch-by-id returns a clone of the raw record, without display names
  and with the alias \<^verbatim>\<open>id\<close>; when the record fetch itself fails, or finds
  nothing, it returns \<^verbatim>\<open>null\<close>.
\<close>

theorem reads_never_fail:
  "(\<exists>v. fst (service_getAllEvents h events_r opps_r comps_r) = Inr v)
   \<and> (\<exists>v. fst (service_getEventById h rawEvent_r opps_r comps_r) = Inr v)
   \<and> ((\<exists>e. events_r = Inl e) \<or> (\<exists>e. opps_r = Inl e) \<or> (\<exists>e. comps_r = Inl e) \<longrightarrow>
        service_getAllEvents h events_r opps_r comps_r = (Inr [], h))
   \<and> ((\<exists>e. opps_r = Inl e) \<or> (\<exists>e. comps_r = Inl e) \<longrightarrow>
        service_getEventById h (Inr (Some rawEvent)) opps_r comps_r
          = (Inr (JObj (length h)), h @ [with_id_alias (h ! rawEvent)]))
   \<and> service_getEventById h (Inl e) opps_r comps_r = (Inr JNull, h)
   \<and> service_getEventById h (Inr None) opps_r comps_r = (Inr JNull, h)"
  using getAllEvents_never_fails [of h events_r opps_r comps_r]
    getEventById_never_fails [of h rawEvent_r opps_r comps_r]
    getAllEvents_failed [of events_r opps_r comps_r h]
    getEventById_join_failed [of opps_r comps_r h rawEvent]
  by (simp add: service_getEventById_def getEventById_try_def)

theorem reads_never_fail_witness:
  "service_getAllEvents [demo_event] (Inr [0]) (Inl (Failure 1)) (Inr [demo_comp]) = (Inr [], [demo_event])
   \<and> fst (service_getEventById [demo_event] (Inr (Some 0)) (Inl (Failure 1)) (Inr [demo_comp])) = Inr (JObj 1)
   \<and> (snd (service_getEventById [demo_event] (Inr (Some 0)) (Inl (Failure 1)) (Inr [demo_comp])) ! 1) ''companyName''
      = JUndefined"
  using reads_never_fail [of "[demo_event]" "Inr [0]" "Inl (Failure 1)" "Inr [demo_comp]" "Inr (Some 0)" 0]
  by (simp add: with_id_alias_def demo_event_fields)

end
